theory Spec2Isabelle
  imports Complex_Main
begin

section \<open>Values of the Python program\<close>

text \<open>
  The program (\<^verbatim>\<open>app.py\<close>) handles objects parsed from JSON. A parsed JSON value is
  \<^verbatim>\<open>None\<close>, a bool, a number, a string, a list or a dict with string keys. Numbers carry
  their exact value (every finite Python int or float is a rational); the non-standard
  literals NaN and Infinity are outside the model. A dict is an association list in
  insertion order, looked up with \<open>map_of\<close>; Python keeps its keys distinct.
\<close>

datatype json =
    JNull
  | JBool bool
  | JNum rat
  | JStr string
  | JArr "json list"
  | JObj "(string \<times> json) list"

text \<open>The exceptions that the modelled code can raise inside a \<^verbatim>\<open>try\<close> block.\<close>

datatype py_error = AttributeError | TypeError | IndexError

text \<open>\<^verbatim>\<open>bool(x)\<close>, as used by \<^verbatim>\<open>if not x\<close>.\<close>

fun py_truthy :: "json \<Rightarrow> bool" where
  "py_truthy JNull = False"
| "py_truthy (JBool b) = b"
| "py_truthy (JNum n) = (n \<noteq> 0)"
| "py_truthy (JStr s) = (s \<noteq> [])"
| "py_truthy (JArr xs) = (xs \<noteq> [])"
| "py_truthy (JObj kv) = (kv \<noteq> [])"

text \<open>\<^verbatim>\<open>d.get(key, default)\<close>: only a dict has the method.\<close>

definition py_get :: "json \<Rightarrow> string \<Rightarrow> json \<Rightarrow> py_error + json" where
  "py_get d key dflt =
     (case d of
        JObj kv \<Rightarrow> Inr (case map_of kv key of Some v \<Rightarrow> v | None \<Rightarrow> dflt)
      | _ \<Rightarrow> Inl AttributeError)"

text \<open>
  \<^verbatim>\<open>iter(x)\<close>, run to the end: a list gives its elements, a string its characters (each a
  string of length one), a dict its keys; anything else is not iterable.
\<close>

definition py_iter :: "json \<Rightarrow> py_error + json list" where
  "py_iter x =
     (case x of
        JArr xs \<Rightarrow> Inr xs
      | JStr s \<Rightarrow> Inr (map (\<lambda>c. JStr [c]) s)
      | JObj kv \<Rightarrow> Inr (map (\<lambda>p. JStr (fst p)) kv)
      | _ \<Rightarrow> Inl TypeError)"

text \<open>\<^verbatim>\<open>zip(fields, row)\<close>, as the list of pairs that \<^verbatim>\<open>dict\<close> consumes.\<close>

definition py_zip :: "json \<Rightarrow> json \<Rightarrow> py_error + (json \<times> json) list" where
  "py_zip a b =
     (case py_iter a of
        Inl e \<Rightarrow> Inl e
      | Inr xs \<Rightarrow> (case py_iter b of Inl e \<Rightarrow> Inl e | Inr ys \<Rightarrow> Inr (zip xs ys)))"

text \<open>
  Keys of a Python dict and labels of a pandas index are compared by hash and \<^verbatim>\<open>==\<close>:
  lists and dicts are unhashable, \<^verbatim>\<open>True == 1\<close> and \<^verbatim>\<open>False == 0\<close>.
\<close>

fun py_hashable :: "json \<Rightarrow> bool" where
  "py_hashable (JArr xs) = False"
| "py_hashable (JObj kv) = False"
| "py_hashable j = True"

fun key_norm :: "json \<Rightarrow> json" where
  "key_norm (JBool b) = JNum (if b then 1 else 0)"
| "key_norm j = j"

definition py_eq :: "json \<Rightarrow> json \<Rightarrow> bool" where
  "py_eq a b = (key_norm a = key_norm b)"

text \<open>
  \<^verbatim>\<open>d[k] = v\<close> on an insertion-ordered dict: an equal key keeps its place and its first
  key object and takes the new value, a new key goes to the end.
\<close>

fun dict_set :: "json \<Rightarrow> json \<Rightarrow> (json \<times> json) list \<Rightarrow> (json \<times> json) list" where
  "dict_set k v [] = [(k, v)]"
| "dict_set k v (p # d) = (if py_eq (fst p) k then (fst p, v) # d else p # dict_set k v d)"

fun dict_of_pairs :: "(json \<times> json) list \<Rightarrow> (json \<times> json) list \<Rightarrow> (json \<times> json) list" where
  "dict_of_pairs d [] = d"
| "dict_of_pairs d (p # ps) = dict_of_pairs (dict_set (fst p) (snd p) d) ps"

text \<open>\<^verbatim>\<open>dict(pairs)\<close>: raises TypeError at an unhashable key.\<close>

definition py_dict :: "(json \<times> json) list \<Rightarrow> py_error + (json \<times> json) list" where
  "py_dict ps =
     (if list_all (\<lambda>p. py_hashable (fst p)) ps then Inr (dict_of_pairs [] ps) else Inl TypeError)"

text \<open>\<^verbatim>\<open>d.get(k)\<close> on such a dict, \<open>None\<close> when the key is missing.\<close>

fun dict_get :: "(json \<times> json) list \<Rightarrow> json \<Rightarrow> json option" where
  "dict_get [] k = None"
| "dict_get (p # d) k = (if py_eq (fst p) k then Some (snd p) else dict_get d k)"

text \<open>A list comprehension whose body can raise: the first exception ends it.\<close>

fun map_err :: "('a \<Rightarrow> py_error + 'b) \<Rightarrow> 'a list \<Rightarrow> py_error + 'b list" where
  "map_err f [] = Inr []"
| "map_err f (x # xs) =
     (case f x of
        Inl e \<Rightarrow> Inl e
      | Inr y \<Rightarrow> (case map_err f xs of Inl e \<Rightarrow> Inl e | Inr ys \<Rightarrow> Inr (y # ys)))"

section \<open>The table: a pandas DataFrame\<close>

text \<open>
  A DataFrame is its column labels, in order (labels may repeat after a rename), and its
  rows; each row has one cell per column, \<open>None\<close> where the record had no value for the
  column (pandas shows NaN).
\<close>

record dataframe =
  columns :: "json list"
  rows :: "json option list list"

text \<open>\<^verbatim>\<open>df.empty\<close>: an axis of length zero.\<close>

definition df_empty :: "dataframe \<Rightarrow> bool" where
  "df_empty df = (rows df = [] \<or> columns df = [])"

text \<open>The labels of a list of keys, each once, in order of first appearance.\<close>

definition add_label :: "json list \<Rightarrow> json \<Rightarrow> json list" where
  "add_label acc k = (if list_ex (\<lambda>c. py_eq c k) acc then acc else acc @ [k])"

definition py_unique :: "json list \<Rightarrow> json list \<Rightarrow> json list" where
  "py_unique acc ks = foldl add_label acc ks"

text \<open>
  \<^verbatim>\<open>pd.DataFrame(records)\<close> for a list of dicts: the columns are the keys of all records
  in order of first appearance, and every record gives one row.
\<close>

definition DataFrame :: "(json \<times> json) list list \<Rightarrow> dataframe" where
  "DataFrame recs =
     (let cols = foldl (\<lambda>acc r. py_unique acc (map fst r)) [] recs
      in \<lparr>columns = cols, rows = map (\<lambda>r. map (dict_get r) cols) recs\<rparr>)"

text \<open>
  \<^verbatim>\<open>df.rename(columns=mapper)\<close>: a label that is a key of the mapper is replaced, every
  other label is kept; the mapper's keys are strings here.
\<close>

definition rename_label :: "(string \<times> string) list \<Rightarrow> json \<Rightarrow> json" where
  "rename_label m c =
     (case c of
        JStr s \<Rightarrow> (case map_of m s of Some v \<Rightarrow> JStr v | None \<Rightarrow> c)
      | _ \<Rightarrow> c)"

definition df_rename :: "(string \<times> string) list \<Rightarrow> dataframe \<Rightarrow> dataframe" where
  "df_rename m df = df\<lparr>columns := map (rename_label m) (columns df)\<rparr>"

section \<open>Table normalizer: \<^verbatim>\<open>NasaSsdCneosApi.format_response\<close>\<close>

definition fireball_rename_map :: "(string \<times> string) list" where
  "fireball_rename_map =
     [(''date'', ''Date/Time''),
      (''energy'', ''Energy (kt)''),
      (''impact-e'', ''Impact Energy (10^10 J)''),
      (''lat'', ''Latitude''),
      (''lon'', ''Longitude''),
      (''alt'', ''Altitude (km)''),
      (''vel'', ''Velocity (km/s)'')]"

definition close_approach_rename_map :: "(string \<times> string) list" where
  "close_approach_rename_map =
     [(''des'', ''Object''),
      (''orbit_id'', ''Orbit ID''),
      (''cd'', ''Time (TDB)''),
      (''dist'', ''Nominal Distance (au)''),
      (''dist_min'', ''Minimum Distance (au)''),
      (''dist_max'', ''Maximum Distance (au)''),
      (''v_rel'', ''Velocity (km/s)''),
      (''h'', ''H (mag)'')]"

text \<open>\<^verbatim>\<open>{k: v for k, v in rename_map.items() if k in df.columns}\<close>\<close>

definition valid_rename :: "(string \<times> string) list \<Rightarrow> dataframe \<Rightarrow> (string \<times> string) list" where
  "valid_rename rename_map df = filter (\<lambda>p. JStr (fst p) \<in> set (columns df)) rename_map"

text \<open>The rename table of a format type; no other type renames anything (lines 128-157).\<close>

definition rename_map_of :: "string \<Rightarrow> (string \<times> string) list" where
  "rename_map_of format_type =
     (if format_type = ''fireballs'' then fireball_rename_map
      else if format_type = ''close_approaches'' then close_approach_rename_map
      else [])"

definition rename_step :: "string \<Rightarrow> dataframe \<Rightarrow> dataframe" where
  "rename_step format_type df =
     (if format_type = ''fireballs'' then df_rename (valid_rename fireball_rename_map df) df
      else if format_type = ''close_approaches''
        then df_rename (valid_rename close_approach_rename_map df) df
      else df)"

text \<open>\<^verbatim>\<open>[dict(zip(fields, row)) for row in rows]\<close>\<close>

definition records_of :: "json \<Rightarrow> json \<Rightarrow> py_error + (json \<times> json) list list" where
  "records_of flds rs =
     (case py_iter rs of
        Inl e \<Rightarrow> Inl e
      | Inr rws \<Rightarrow>
          map_err (\<lambda>row. case py_zip flds row of Inl e \<Rightarrow> Inl e | Inr ps \<Rightarrow> py_dict ps) rws)"

text \<open>
  The body of the \<^verbatim>\<open>try\<close> block of \<^verbatim>\<open>format_response\<close> (lines 103-157): \<open>Inl\<close> is an
  exception raised inside it, \<open>Inr None\<close> a returned \<^verbatim>\<open>None\<close>. Logging does not change the
  result and is left out.
\<close>

definition format_response_try :: "json \<Rightarrow> string \<Rightarrow> py_error + dataframe option" where
  "format_response_try data format_type =
     (if \<not> py_truthy data then Inr None
      else case py_get data ''signature'' JNull of
        Inl e \<Rightarrow> Inl e
      | Inr sig \<Rightarrow>
         (case py_get data ''fields'' sig of
            Inl e \<Rightarrow> Inl e
          | Inr flds \<Rightarrow>
             (case py_get data ''data'' JNull of
                Inl e \<Rightarrow> Inl e
              | Inr rs \<Rightarrow>
                 if \<not> py_truthy flds \<or> \<not> py_truthy rs then Inr None
                 else (case records_of flds rs of
                         Inl e \<Rightarrow> Inl e
                       | Inr recs \<Rightarrow>
                           let df = DataFrame recs
                           in if df_empty df then Inr None
                              else Inr (Some (rename_step format_type df))))))"

text \<open>
  \<^verbatim>\<open>format_response\<close> itself: \<^verbatim>\<open>except Exception\<close> (lines 159-162) turns every exception of
  the body into a returned \<^verbatim>\<open>None\<close>.
\<close>

definition format_response :: "json \<Rightarrow> string \<Rightarrow> dataframe option" where
  "format_response data format_type =
     (case format_response_try data format_type of Inl e \<Rightarrow> None | Inr r \<Rightarrow> r)"

section \<open>The outside world\<close>

text \<open>
  A query parameter value: \<^verbatim>\<open>None\<close>, a string, an int, or a float as \<^verbatim>\<open>float()\<close> made it.
  The parameter dict is an association list in insertion order.
\<close>

datatype 'f pval = PNone | PStr string | PInt int | PFloat 'f

type_synonym 'f params = "(string \<times> 'f pval) list"

text \<open>
  What \<^verbatim>\<open>requests.get\<close> does: it raises (connection failure, timeout, ...; the text is
  that of the exception), or it returns a response with its status code, its body text
  and the value of \<^verbatim>\<open>response.json()\<close>, \<open>None\<close> when the body is not valid JSON.
\<close>

datatype http_outcome =
    RequestFailed string
  | Response nat string "json option"

text \<open>
  What the program does to the outside: the call of \<^verbatim>\<open>requests.get\<close> with its URL and
  parameters, and the log records of \<^verbatim>\<open>_make_api_request\<close>, each with the name of the API
  where the source prints it: the URL and the parameters of the request (lines 31-32),
  the status and the first 500 characters of the response (lines 39-40), the API error
  with the value of the \<^verbatim>\<open>error\<close> key (line 50), the HTTP error with the status and the
  response content (lines 56-58), the JSON decode error and the raw response (lines
  62-64), and the general error with the text of the exception (line 68).
\<close>

datatype 'f event =
    HttpGet string "'f params"
  | InfoRequestUrl string string
  | InfoRequestParams string "'f params"
  | InfoResponseStatus string nat
  | InfoResponsePreview string string
  | ErrorApi string json
  | ErrorHttp string nat
  | ErrorResponseContent string
  | ErrorJsonDecode string
  | ErrorRawResponse string
  | ErrorGeneral string string

text \<open>The keyword arguments of \<^verbatim>\<open>px.scatter_geo\<close> and \<^verbatim>\<open>px.scatter\<close>.\<close>

record geo_args =
  geo_lat :: json
  geo_lon :: json
  geo_size :: "json option"
  geo_hover_name :: "json option"
  geo_projection :: string
  geo_title :: string

record xy_args =
  xy_x :: json
  xy_y :: json
  xy_hover_name :: "json option"
  xy_size :: "json option"
  xy_color :: "json option"
  xy_title :: string

text \<open>
  The library calls whose results the program only passes on are parameters of the
  model: \<^verbatim>\<open>float(s)\<close> on a string (\<open>Inl\<close> carries the text of the ValueError), the truth
  value of a float, \<^verbatim>\<open>requests.get\<close>, and the two plotting calls (\<open>None\<close> when the call
  raises).
\<close>

record ('f, 'fig) env =
  py_float :: "string \<Rightarrow> string + 'f"
  float_truthy :: "'f \<Rightarrow> bool"
  http_get :: "string \<Rightarrow> 'f params \<Rightarrow> http_outcome"
  scatter_geo :: "dataframe \<Rightarrow> geo_args \<Rightarrow> 'fig option"
  scatter :: "dataframe \<Rightarrow> xy_args \<Rightarrow> 'fig option"

section \<open>Transport client: \<^verbatim>\<open>NasaSsdCneosApi\<close>\<close>

record NasaSsdCneosApi =
  fireball_url :: string
  ca_url :: string
  debug_mode :: bool

text \<open>\<^verbatim>\<open>__init__\<close> (lines 16-21)\<close>

definition init_api :: NasaSsdCneosApi where
  "init_api =
     \<lparr>fireball_url = ''https://ssd-api.jpl.nasa.gov/fireball.api'',
      ca_url = ''https://ssd-api.jpl.nasa.gov/cad.api'',
      debug_mode = True\<rparr>"

text \<open>
  \<^verbatim>\<open>_make_api_request\<close> (lines 23-70), first its \<^verbatim>\<open>clean_params\<close> (line 27). The result
  is the returned object, \<open>JNull\<close> being Python's \<^verbatim>\<open>None\<close>, with the events in the order
  they happen. \<^verbatim>\<open>raise_for_status\<close> raises for a status from 400 to 599.
\<close>

definition clean_params :: "'f params \<Rightarrow> 'f params" where
  "clean_params params = filter (\<lambda>p. snd p \<noteq> PNone \<and> snd p \<noteq> PStr '''') params"

definition make_api_request ::
  "('f, 'fig) env \<Rightarrow> NasaSsdCneosApi \<Rightarrow> string \<Rightarrow> 'f params \<Rightarrow> string \<Rightarrow> json \<times> 'f event list"
where
  "make_api_request env self url params name =
     (let sent = (if debug_mode self
                  then [InfoRequestUrl name url, InfoRequestParams name (clean_params params)]
                  else [])
                 @ [HttpGet url (clean_params params)]
      in case http_get env url (clean_params params) of
           RequestFailed err \<Rightarrow> (JNull, sent @ [ErrorGeneral name err])
         | Response status_code text body \<Rightarrow>
            (let got = sent @ (if debug_mode self
                               then [InfoResponseStatus name status_code,
                                     InfoResponsePreview name (take 500 text)]
                               else [])
             in if 400 \<le> status_code \<and> status_code < 600
                then (JNull, got @ [ErrorHttp name status_code]
                                 @ (if debug_mode self then [ErrorResponseContent text] else []))
                else (case body of
                        None \<Rightarrow>
                          (JNull, got @ [ErrorJsonDecode name]
                                      @ (if debug_mode self then [ErrorRawResponse text] else []))
                      | Some data \<Rightarrow>
                          (case data of
                             JObj kv \<Rightarrow>
                               (case map_of kv ''error'' of
                                  Some err \<Rightarrow> (JNull, got @ [ErrorApi name err])
                                | None \<Rightarrow> (data, got))
                           | _ \<Rightarrow> (data, got)))))"

text \<open>\<^verbatim>\<open>get_fireballs\<close> (lines 72-80)\<close>

definition get_fireballs ::
  "('f, 'fig) env \<Rightarrow> NasaSsdCneosApi \<Rightarrow> int \<Rightarrow> string option \<Rightarrow> 'f option
     \<Rightarrow> json \<times> 'f event list"
where
  "get_fireballs env self limit date_min energy_min =
     (let params = [(''limit'', PInt limit)]
            @ (case date_min of
                 Some d \<Rightarrow> if d \<noteq> '''' then [(''date-min'', PStr d)] else []
               | None \<Rightarrow> [])
            @ (case energy_min of
                 Some e \<Rightarrow> if float_truthy env e then [(''energy-min'', PFloat e)] else []
               | None \<Rightarrow> [])
      in make_api_request env self (fireball_url self) params ''Fireball API'')"

text \<open>An optional string or float as a parameter value.\<close>

definition str_param :: "string option \<Rightarrow> 'f pval" where
  "str_param x = (case x of None \<Rightarrow> PNone | Some s \<Rightarrow> PStr s)"

definition float_param :: "'f option \<Rightarrow> 'f pval" where
  "float_param x = (case x of None \<Rightarrow> PNone | Some v \<Rightarrow> PFloat v)"

text \<open>\<^verbatim>\<open>get_close_approaches\<close> (lines 82-98)\<close>

definition get_close_approaches ::
  "('f, 'fig) env \<Rightarrow> NasaSsdCneosApi \<Rightarrow> 'f option \<Rightarrow> string option \<Rightarrow> string option
     \<Rightarrow> 'f option \<Rightarrow> 'f option \<Rightarrow> 'f option \<Rightarrow> 'f option \<Rightarrow> int \<Rightarrow> json \<times> 'f event list"
where
  "get_close_approaches env self dist_max date_min date_max h_min h_max v_inf_min v_inf_max limit =
     (let params =
            [(''limit'', PInt limit),
             (''dist-max'', float_param dist_max),
             (''date-min'', str_param date_min),
             (''date-max'', str_param date_max),
             (''h-min'', float_param h_min),
             (''h-max'', float_param h_max),
             (''v-inf-min'', float_param v_inf_min),
             (''v-inf-max'', float_param v_inf_max),
             (''sort'', PStr ''date'')]
      in make_api_request env self (ca_url self) params ''Close Approaches API'')"

section \<open>The interface functions\<close>

text \<open>
  The two functions return a pair for the table widget and the plot widget: the first
  component is a message or the table, the second the figure or \<^verbatim>\<open>None\<close>.
\<close>

datatype table_output = Message string | Table dataframe

text \<open>
  The inputs come from the widgets: \<open>limit\<close> from a slider with integer steps, so that
  \<^verbatim>\<open>int(limit)\<close> is the number itself; the other inputs are the texts of text boxes.
  With these input types nothing outside the inner \<^verbatim>\<open>try\<close> blocks raises, so the outer
  handlers (lines 212-215, 273-276) are never entered.

  \<^verbatim>\<open>s.strip()\<close> removes leading and trailing whitespace; the model knows the ASCII
  whitespace characters.
\<close>

definition py_isspace :: "char \<Rightarrow> bool" where
  "py_isspace c =
     (c \<in> {CHR 0x09, CHR 0x0A, CHR 0x0B, CHR 0x0C, CHR 0x0D,
            CHR 0x1C, CHR 0x1D, CHR 0x1E, CHR 0x1F, CHR 0x20})"

definition py_strip :: "string \<Rightarrow> string" where
  "py_strip s = rev (dropWhile py_isspace (rev (dropWhile py_isspace s)))"

text \<open>\<^verbatim>\<open>s.strip() if s else None\<close> and \<^verbatim>\<open>float(s) if s else None\<close>\<close>

definition strip_optional :: "string \<Rightarrow> string option" where
  "strip_optional s = (if s \<noteq> '''' then Some (py_strip s) else None)"

definition float_optional :: "('f, 'fig) env \<Rightarrow> string \<Rightarrow> string + 'f option" where
  "float_optional env s =
     (if s \<noteq> '''' then (case py_float env s of Inl err \<Rightarrow> Inl err | Inr x \<Rightarrow> Inr (Some x))
      else Inr None)"

definition no_data_returned :: string where
  "no_data_returned =
     ''No data returned from API. There might be an issue with the connection or parameters.''"

text \<open>The world map of \<^verbatim>\<open>fetch_fireballs\<close> (lines 192-211).\<close>

definition fireball_chart :: "('f, 'fig) env \<Rightarrow> dataframe \<Rightarrow> table_output \<times> 'fig option" where
  "fireball_chart env df =
     (if JStr ''Latitude'' \<in> set (columns df) \<and> JStr ''Longitude'' \<in> set (columns df)
      then
        (let size_col = (if JStr ''Energy (kt)'' \<in> set (columns df)
                         then Some (JStr ''Energy (kt)'') else None)
         in case scatter_geo env df
                   \<lparr>geo_lat = JStr ''Latitude'',
                    geo_lon = JStr ''Longitude'',
                    geo_size = size_col,
                    geo_hover_name = (if JStr ''Date/Time'' \<in> set (columns df)
                                      then Some (JStr ''Date/Time'') else None),
                    geo_projection = ''natural earth'',
                    geo_title = ''Fireball Events''\<rparr> of
              Some fig \<Rightarrow> (Table df, Some fig)
            | None \<Rightarrow> (Table df, None))
      else (Table df, None))"

text \<open>\<^verbatim>\<open>fetch_fireballs\<close> (lines 167-215)\<close>

definition fetch_fireballs ::
  "('f, 'fig) env \<Rightarrow> int \<Rightarrow> string \<Rightarrow> string \<Rightarrow> (table_output \<times> 'fig option) \<times> 'f event list"
where
  "fetch_fireballs env limit date_min energy_min =
     (let api = init_api;
          date_min' = strip_optional date_min
      in case float_optional env energy_min of
           Inl err \<Rightarrow>
             ((Message (''Error: Invalid energy value '' @ [CHR 0x27] @ energy_min @ [CHR 0x27]
                        @ ''. Please enter a valid number.''), None), [])
         | Inr energy_min' \<Rightarrow>
            (case get_fireballs env api limit date_min' energy_min' of
               (data, trace) \<Rightarrow>
                 if \<not> py_truthy data then ((Message no_data_returned, None), trace)
                 else (case format_response data ''fireballs'' of
                         None \<Rightarrow>
                           ((Message ''No fireball data available for the specified parameters.'',
                             None), trace)
                       | Some df \<Rightarrow>
                           if df_empty df
                           then ((Message
                                   ''No fireball data available for the specified parameters.'',
                                  None), trace)
                           else (fireball_chart env df, trace))))"

text \<open>\<^verbatim>\<open>xs[i]\<close> for \<open>i\<close> from zero up.\<close>

definition py_index :: "'a list \<Rightarrow> nat \<Rightarrow> py_error + 'a" where
  "py_index xs i = (if i < length xs then Inr (xs ! i) else Inl IndexError)"

text \<open>The arguments of the scatter plot of \<^verbatim>\<open>fetch_close_approaches\<close> (lines 255-267).\<close>

definition scatter_args :: "dataframe \<Rightarrow> py_error + xy_args" where
  "scatter_args df =
     (case (if JStr ''Nominal Distance (au)'' \<in> set (columns df)
            then Inr (JStr ''Nominal Distance (au)'') else py_index (columns df) 0) of
        Inl e \<Rightarrow> Inl e
      | Inr x_col \<Rightarrow>
         (case (if JStr ''Velocity (km/s)'' \<in> set (columns df)
                then Inr (JStr ''Velocity (km/s)'') else py_index (columns df) 1) of
            Inl e \<Rightarrow> Inl e
          | Inr y_col \<Rightarrow>
              Inr \<lparr>xy_x = x_col,
                   xy_y = y_col,
                   xy_hover_name = (if JStr ''Object'' \<in> set (columns df)
                                    then Some (JStr ''Object'') else None),
                   xy_size = (if JStr ''H (mag)'' \<in> set (columns df)
                              then Some (JStr ''H (mag)'') else None),
                   xy_color = (if JStr ''H (mag)'' \<in> set (columns df)
                               then Some (JStr ''H (mag)'') else None),
                   xy_title = ''Close Approaches - Distance vs Velocity''\<rparr>))"

text \<open>The scatter plot of \<^verbatim>\<open>fetch_close_approaches\<close> (lines 253-272).\<close>

definition close_approach_chart :: "('f, 'fig) env \<Rightarrow> dataframe \<Rightarrow> table_output \<times> 'fig option" where
  "close_approach_chart env df =
     (case scatter_args df of
        Inl e \<Rightarrow> (Table df, None)
      | Inr args \<Rightarrow>
         (case scatter env df args of
            Some fig \<Rightarrow> (Table df, Some fig)
          | None \<Rightarrow> (Table df, None)))"

text \<open>
  The five conversions of lines 224-228, in their order; the first that fails ends them
  with the text of its ValueError.
\<close>

definition float_inputs ::
  "('f, 'fig) env \<Rightarrow> string \<Rightarrow> string \<Rightarrow> string \<Rightarrow> string \<Rightarrow> string
     \<Rightarrow> string + ('f option \<times> 'f option \<times> 'f option \<times> 'f option \<times> 'f option)"
where
  "float_inputs env dist_max h_min h_max v_inf_min v_inf_max =
     (case float_optional env dist_max of Inl ve \<Rightarrow> Inl ve | Inr a \<Rightarrow>
      case float_optional env h_min of Inl ve \<Rightarrow> Inl ve | Inr b \<Rightarrow>
      case float_optional env h_max of Inl ve \<Rightarrow> Inl ve | Inr c \<Rightarrow>
      case float_optional env v_inf_min of Inl ve \<Rightarrow> Inl ve | Inr d \<Rightarrow>
      case float_optional env v_inf_max of Inl ve \<Rightarrow> Inl ve | Inr e \<Rightarrow>
      Inr (a, b, c, d, e))"

text \<open>\<^verbatim>\<open>fetch_close_approaches\<close> (lines 217-276)\<close>

definition fetch_close_approaches ::
  "('f, 'fig) env \<Rightarrow> int \<Rightarrow> string \<Rightarrow> string \<Rightarrow> string \<Rightarrow> string \<Rightarrow> string \<Rightarrow> string \<Rightarrow> string
     \<Rightarrow> (table_output \<times> 'fig option) \<times> 'f event list"
where
  "fetch_close_approaches env limit dist_max date_min date_max h_min h_max v_inf_min v_inf_max =
     (let api = init_api
      in case float_inputs env dist_max h_min h_max v_inf_min v_inf_max of
           Inl ve \<Rightarrow> ((Message (''Error: Invalid numeric input - '' @ ve), None), [])
         | Inr (dist_max', h_min', h_max', v_inf_min', v_inf_max') \<Rightarrow>
            (let date_min' = strip_optional date_min;
                 date_max' = strip_optional date_max
             in case get_close_approaches env api dist_max' date_min' date_max'
                       h_min' h_max' v_inf_min' v_inf_max' limit of
                  (data, trace) \<Rightarrow>
                    if \<not> py_truthy data then ((Message no_data_returned, None), trace)
                    else (case format_response data ''close_approaches'' of
                            None \<Rightarrow>
                              ((Message
                                 ''No close approach data available for the specified parameters.'',
                                None), trace)
                          | Some df \<Rightarrow>
                              if df_empty df
                              then ((Message
                                 ''No close approach data available for the specified parameters.'',
                                     None), trace)
                              else (close_approach_chart env df, trace))))"

section \<open>A world for the examples\<close>

text \<open>
  The examples run the program in a world where every request has the outcome \<open>r\<close>, where
  a figure is the arguments it was made from, and where \<^verbatim>\<open>float\<close> is known on the two
  texts the examples type in: \<^verbatim>\<open>float('0.5')\<close> is one half, and \<^verbatim>\<open>float('abc')\<close> raises
  \<^verbatim>\<open>ValueError("could not convert string to float: 'abc'")\<close>.
\<close>

definition example_float :: "string \<Rightarrow> string + rat" where
  "example_float s =
     (if s = ''0.5'' then Inr (1 / 2)
      else Inl (''could not convert string to float: '' @ [CHR 0x27] @ s @ [CHR 0x27]))"

definition example_env :: "http_outcome \<Rightarrow> (rat, geo_args + xy_args) env" where
  "example_env r =
     \<lparr>py_float = example_float,
      float_truthy = (\<lambda>x. x \<noteq> 0),
      http_get = (\<lambda>url params. r),
      scatter_geo = (\<lambda>df args. Some (Inl args)),
      scatter = (\<lambda>df args. Some (Inr args))\<rparr>"

section \<open>Lemmas about the normalizer\<close>

subsection \<open>Lookup and rename\<close>

lemma py_get_dict: "py_get (JObj kv) key dflt = Inr (case map_of kv key of Some v \<Rightarrow> v | None \<Rightarrow> dflt)"
  by (simp add: py_get_def)


lemma map_of_filter_key:
  "P k \<Longrightarrow> map_of (filter (\<lambda>p. P (fst p)) m) k = map_of m k"
  by (induction m) auto

lemma rename_label_valid:
  "c \<in> set (columns df) \<Longrightarrow> rename_label (valid_rename m df) c = rename_label m c"
proof (cases c)
  case (JStr s)
  assume "c \<in> set (columns df)"
  with JStr have "JStr s \<in> set (columns df)" by simp
  then have "map_of (filter (\<lambda>p. JStr (fst p) \<in> set (columns df)) m) s = map_of m s"
    by (rule map_of_filter_key [where P = "\<lambda>k. JStr k \<in> set (columns df)"])
  with JStr show ?thesis by (simp add: rename_label_def valid_rename_def)
qed (simp_all add: rename_label_def)

lemma df_rename_valid: "df_rename (valid_rename m df) df = df_rename m df"
  by (simp add: df_rename_def rename_label_valid cong: map_cong)

lemma rename_label_empty: "rename_label [] = (\<lambda>c. c)"
proof
  fix c show "rename_label [] c = c"
    by (cases c) (simp_all add: rename_label_def)
qed

lemma df_rename_empty: "df_rename [] df = df"
  by (simp add: df_rename_def rename_label_empty)

lemma rename_step_eq: "rename_step t df = df_rename (rename_map_of t) df"
  by (simp add: rename_step_def rename_map_of_def df_rename_valid df_rename_empty)

lemma rename_label_idem:
  assumes "snd ` set m \<inter> fst ` set m = {}"
  shows "rename_label m (rename_label m c) = rename_label m c"
proof (cases c)
  case (JStr s)
  show ?thesis
  proof (cases "map_of m s")
    case None
    with JStr show ?thesis by (simp add: rename_label_def)
  next
    case (Some v)
    then have "(s, v) \<in> set m" by (rule map_of_SomeD)
    then have "v \<in> snd ` set m" by force
    with assms have "v \<notin> fst ` set m" by blast
    then have "map_of m v = None" by (simp add: map_of_eq_None_iff)
    with JStr Some show ?thesis by (simp add: rename_label_def)
  qed
qed (simp_all add: rename_label_def)

lemma rename_label_fixed:
  "c \<notin> JStr ` fst ` set m \<Longrightarrow> rename_label m c = c"
proof (cases c)
  case (JStr s)
  assume "c \<notin> JStr ` fst ` set m"
  with JStr have "s \<notin> fst ` set m" by auto
  then have "map_of m s = None" by (simp add: map_of_eq_None_iff)
  with JStr show ?thesis by (simp add: rename_label_def)
qed (simp_all add: rename_label_def)

lemma fireball_rename_disjoint:
  "snd ` set fireball_rename_map \<inter> fst ` set fireball_rename_map = {}"
  by (simp add: fireball_rename_map_def)

lemma close_approach_rename_disjoint:
  "snd ` set close_approach_rename_map \<inter> fst ` set close_approach_rename_map = {}"
  by (simp add: close_approach_rename_map_def)

lemma rename_maps_disjoint:
  "snd ` set (rename_map_of t) \<inter> fst ` set (rename_map_of t) = {}"
proof (cases "t = ''fireballs''")
  case True
  then show ?thesis by (simp add: rename_map_of_def fireball_rename_disjoint)
next
  case False
  then show ?thesis
    by (cases "t = ''close_approaches''")
       (simp_all add: rename_map_of_def close_approach_rename_disjoint)
qed

subsection \<open>Records and frames\<close>

lemma map_err_map:
  "(\<And>x. x \<in> set xs \<Longrightarrow> f (h x) = Inr (g x)) \<Longrightarrow> map_err f (map h xs) = Inr (map g xs)"
  by (induction xs) simp_all

lemma py_zip_lists: "py_zip (JArr xs) (JArr ys) = Inr (zip xs ys)"
  by (simp add: py_zip_def py_iter_def)

lemma py_dict_str_keys:
  "py_dict (zip (map JStr names) r) = Inr (dict_of_pairs [] (zip (map JStr names) r))"
proof -
  have "\<forall>p \<in> set (zip (map JStr names) r). py_hashable (fst p)"
  proof
    fix p assume "p \<in> set (zip (map JStr names) r)"
    then have "fst p \<in> set (map JStr names)"
      by (metis prod.collapse set_zip_leftD)
    then show "py_hashable (fst p)" by auto
  qed
  then show ?thesis by (simp add: py_dict_def list_all_iff)
qed

lemma records_of_lists:
  "records_of (JArr (map JStr names)) (JArr (map JArr rs))
     = Inr (map (\<lambda>r. dict_of_pairs [] (zip (map JStr names) r)) rs)"
  unfolding records_of_def py_iter_def
  by (simp add: map_err_map py_zip_lists py_dict_str_keys)

subsection \<open>Keys of a dict and labels of a frame\<close>

lemma dict_set_keys: "fst ` set (dict_set k v d) \<subseteq> insert k (fst ` set d)"
  by (induction d) auto

lemma dict_set_nonempty: "dict_set k v d \<noteq> []"
  by (cases d) simp_all

lemma dict_of_pairs_keys: "fst ` set (dict_of_pairs d ps) \<subseteq> fst ` set d \<union> fst ` set ps"
proof (induction ps arbitrary: d)
  case Nil
  show ?case by simp
next
  case (Cons p ps)
  have "fst ` set (dict_of_pairs (dict_set (fst p) (snd p) d) ps)
          \<subseteq> fst ` set (dict_set (fst p) (snd p) d) \<union> fst ` set ps"
    by (rule Cons.IH)
  also have "\<dots> \<subseteq> insert (fst p) (fst ` set d) \<union> fst ` set ps"
    using dict_set_keys [of "fst p" "snd p" d] by blast
  finally show ?case by auto
qed

lemma dict_of_pairs_nonempty: "d \<noteq> [] \<or> ps \<noteq> [] \<Longrightarrow> dict_of_pairs d ps \<noteq> []"
  by (induction ps arbitrary: d) (simp_all add: dict_set_nonempty)

lemma add_label_set: "set (add_label acc k) \<subseteq> insert k (set acc)"
  by (auto simp: add_label_def)

lemma add_label_nonempty: "add_label acc k \<noteq> []"
  by (cases acc) (auto simp: add_label_def list_ex_iff)

lemma py_unique_set: "set (py_unique acc ks) \<subseteq> set acc \<union> set ks"
  unfolding py_unique_def
proof (induction ks arbitrary: acc)
  case Nil
  show ?case by simp
next
  case (Cons k ks)
  have "set (foldl add_label (add_label acc k) ks) \<subseteq> set (add_label acc k) \<union> set ks"
    by (rule Cons.IH)
  also have "\<dots> \<subseteq> insert k (set acc) \<union> set ks"
    using add_label_set [of acc k] by blast
  finally show ?case by auto
qed

lemma py_unique_nonempty: "acc \<noteq> [] \<or> ks \<noteq> [] \<Longrightarrow> py_unique acc ks \<noteq> []"
  unfolding py_unique_def
  by (induction ks arbitrary: acc) (simp_all add: add_label_nonempty)

lemma frame_columns_set:
  "set (foldl (\<lambda>acc r. py_unique acc (map fst r)) acc recs) \<subseteq> set acc \<union> (\<Union>r \<in> set recs. fst ` set r)"
proof (induction recs arbitrary: acc)
  case Nil
  show ?case by simp
next
  case (Cons r recs)
  have "set (foldl (\<lambda>acc r. py_unique acc (map fst r)) (py_unique acc (map fst r)) recs)
          \<subseteq> set (py_unique acc (map fst r)) \<union> (\<Union>r \<in> set recs. fst ` set r)"
    by (rule Cons.IH)
  also have "\<dots> \<subseteq> (set acc \<union> fst ` set r) \<union> (\<Union>r \<in> set recs. fst ` set r)"
    using py_unique_set [of acc "map fst r"] by auto
  finally show ?case by auto
qed

lemma frame_columns_nonempty:
  "acc \<noteq> [] \<or> (\<exists>r \<in> set recs. r \<noteq> []) \<Longrightarrow>
     foldl (\<lambda>acc r. py_unique acc (map fst r)) acc recs \<noteq> []"
proof (induction recs arbitrary: acc)
  case Nil
  then show ?case by simp
next
  case (Cons r recs)
  show ?case
  proof (cases "acc \<noteq> [] \<or> r \<noteq> []")
    case True
    then have "py_unique acc (map fst r) \<noteq> []" by (intro py_unique_nonempty) simp
    then show ?thesis using Cons.IH [of "py_unique acc (map fst r)"] by simp
  next
    case False
    with Cons.prems have "\<exists>r \<in> set recs. r \<noteq> []" by auto
    then show ?thesis using Cons.IH [of "py_unique acc (map fst r)"] by simp
  qed
qed

lemma DataFrame_columns:
  "columns (DataFrame recs) = foldl (\<lambda>acc r. py_unique acc (map fst r)) [] recs"
  by (simp add: DataFrame_def Let_def)

lemma DataFrame_rows:
  "rows (DataFrame recs) = map (\<lambda>r. map (dict_get r) (columns (DataFrame recs))) recs"
  by (simp add: DataFrame_def Let_def)

lemma rename_label_range: "rename_label m c \<in> insert c (JStr ` snd ` set m)"
proof (cases c)
  case (JStr s)
  show ?thesis
  proof (cases "map_of m s")
    case None
    with JStr show ?thesis by (simp add: rename_label_def)
  next
    case (Some v)
    then have "(s, v) \<in> set m" by (rule map_of_SomeD)
    then have "v \<in> snd ` set m" by force
    with JStr Some show ?thesis by (simp add: rename_label_def)
  qed
qed (simp_all add: rename_label_def)

lemma rename_step_columns:
  "set (columns (rename_step t df)) \<subseteq> JStr ` snd ` set (rename_map_of t) \<union> set (columns df)"
proof
  fix c assume "c \<in> set (columns (rename_step t df))"
  then obtain c0 where c0: "c0 \<in> set (columns df)" and c: "c = rename_label (rename_map_of t) c0"
    by (auto simp: rename_step_eq df_rename_def)
  from rename_label_range [of "rename_map_of t" c0] c c0
  show "c \<in> JStr ` snd ` set (rename_map_of t) \<union> set (columns df)" by auto
qed

lemma rename_step_rows: "rows (rename_step t df) = rows df"
  by (simp add: rename_step_eq df_rename_def)

lemma rename_step_columns_eq:
  "columns (rename_step t df) = map (rename_label (rename_map_of t)) (columns df)"
  by (simp add: rename_step_eq df_rename_def)

text \<open>The fields resolved by line 108 and the rows of line 109, for a dict payload.\<close>

lemma format_response_try_lists:
  assumes "map_of kv ''fields'' = Some (JArr (map JStr names))
           \<or> (map_of kv ''fields'' = None \<and> map_of kv ''signature'' = Some (JArr (map JStr names)))"
      and "map_of kv ''data'' = Some (JArr (map JArr rs))"
      and "names \<noteq> []" and "rs \<noteq> []"
  shows "format_response_try (JObj kv) t =
           (let df = DataFrame (map (\<lambda>r. dict_of_pairs [] (zip (map JStr names) r)) rs)
            in if df_empty df then Inr None else Inr (Some (rename_step t df)))"
proof -
  from assms(2) have "kv \<noteq> []" by auto
  moreover from assms(1) have
    "(case map_of kv ''fields'' of Some v \<Rightarrow> v
      | None \<Rightarrow> (case map_of kv ''signature'' of Some v \<Rightarrow> v | None \<Rightarrow> JNull))
     = JArr (map JStr names)" by auto
  ultimately show ?thesis
    using assms(2-4)
    by (simp add: format_response_try_def py_get_dict records_of_lists)
qed

subsection \<open>Records with distinct string keys\<close>

lemma py_eq_str: "py_eq (JStr a) k = (k = JStr a)"
  by (cases k) (auto simp: py_eq_def)

lemma dict_set_fresh:
  "\<forall>p \<in> set d. \<not> py_eq (fst p) k \<Longrightarrow> dict_set k v d = d @ [(k, v)]"
  by (induction d) auto

lemma dict_of_pairs_distinct:
  "distinct (map fst (d @ ps)) \<Longrightarrow> \<forall>p \<in> set d. \<exists>s. fst p = JStr s
     \<Longrightarrow> \<forall>p \<in> set ps. \<exists>s. fst p = JStr s \<Longrightarrow> dict_of_pairs d ps = d @ ps"
proof (induction ps arbitrary: d)
  case Nil
  show ?case by simp
next
  case (Cons p ps)
  have "\<forall>q \<in> set d. \<not> py_eq (fst q) (fst p)"
  proof
    fix q assume q: "q \<in> set d"
    with Cons.prems(2) obtain s where s: "fst q = JStr s" by blast
    from q have "fst q \<in> fst ` set d" by simp
    moreover from Cons.prems(1) have "fst p \<notin> fst ` set d" by auto
    ultimately have "fst q \<noteq> fst p" by metis
    with s show "\<not> py_eq (fst q) (fst p)" by (auto simp: py_eq_str)
  qed
  then have set: "dict_set (fst p) (snd p) d = d @ [p]"
    by (simp add: dict_set_fresh)
  have "dict_of_pairs (d @ [p]) ps = (d @ [p]) @ ps"
    using Cons.prems by (intro Cons.IH) auto
  with set show ?case by simp
qed

lemma record_distinct:
  assumes "distinct names"
  shows "dict_of_pairs [] (zip (map JStr names) r) = zip (map JStr names) r"
proof -
  have "distinct (map fst (zip (map JStr names) r))"
    using assms by (simp add: map_fst_zip_take distinct_map inj_on_def)
  moreover have "\<forall>p \<in> set (zip (map JStr names) r). \<exists>s. fst p = JStr s"
  proof
    fix p assume "p \<in> set (zip (map JStr names) r)"
    then have "fst p \<in> set (map JStr names)" by (metis prod.collapse set_zip_leftD)
    then show "\<exists>s. fst p = JStr s" by auto
  qed
  ultimately show ?thesis
    using dict_of_pairs_distinct [of "[]" "zip (map JStr names) r"] by simp
qed

lemma dict_get_zip:
  "distinct ks \<Longrightarrow> \<forall>k \<in> set ks. \<exists>s. k = JStr s \<Longrightarrow> j < length ks \<Longrightarrow>
     dict_get (zip ks vs) (ks ! j) = (if j < length vs then Some (vs ! j) else None)"
proof (induction ks arbitrary: vs j)
  case Nil
  then show ?case by simp
next
  case (Cons k ks)
  show ?case
  proof (cases vs)
    case Nil
    then show ?thesis by simp
  next
    case (Cons v vs')
    show ?thesis
    proof (cases j)
      case 0
      with Cons show ?thesis by (simp add: py_eq_def)
    next
      case (Suc j')
      from Cons.prems obtain s where s: "k = JStr s" by auto
      from Suc Cons.prems have "ks ! j' \<in> set ks" by simp
      with Cons.prems(1) have "ks ! j' \<noteq> k" by auto
      with s have "\<not> py_eq k (ks ! j')" by (simp add: py_eq_str)
      moreover have "dict_get (zip ks vs') (ks ! j') = (if j' < length vs' then Some (vs' ! j') else None)"
        using Cons.prems Suc by (intro Cons.IH) auto
      ultimately show ?thesis using Suc Cons by simp
    qed
  qed
qed

lemma add_label_take:
  assumes "distinct ks" and "\<forall>k \<in> set ks. \<exists>s. k = JStr s" and "b < length ks" and "b \<le> c"
  shows "add_label (take c ks) (ks ! b) = take (max c (Suc b)) ks"
proof (cases "b < c")
  case True
  with assms(3) have "ks ! b \<in> set (take c ks)"
    by (auto simp: in_set_conv_nth intro!: exI [of _ b])
  then have "list_ex (\<lambda>k. py_eq k (ks ! b)) (take c ks)"
    by (auto simp: list_ex_iff py_eq_def)
  moreover from True have "max c (Suc b) = c" by simp
  ultimately show ?thesis by (simp add: add_label_def)
next
  case False
  with assms(4) have bc: "c = b" by simp
  have "\<not> list_ex (\<lambda>k. py_eq k (ks ! b)) (take b ks)"
  proof
    assume "list_ex (\<lambda>k. py_eq k (ks ! b)) (take b ks)"
    then obtain k where k: "k \<in> set (take b ks)" and eq: "py_eq k (ks ! b)"
      by (auto simp: list_ex_iff)
    from k have "k \<in> set ks" by (rule in_set_takeD)
    with assms(2) obtain s where "k = JStr s" by auto
    with eq have "ks ! b = k" by (simp add: py_eq_str)
    with k have "ks ! b \<in> set (take b ks)" by simp
    then obtain i where "i < b" "i < length ks" "ks ! i = ks ! b"
      by (auto simp: in_set_conv_nth)
    with assms(1,3) have "i = b" by (simp add: nth_eq_iff_index_eq)
    with \<open>i < b\<close> show False by simp
  qed
  moreover have "take (Suc b) ks = take b ks @ [ks ! b]"
    using assms(3) by (simp add: take_Suc_conv_app_nth)
  ultimately show ?thesis
    using bc by (simp add: add_label_def)
qed

lemma py_unique_take:
  assumes "distinct ks" and "\<forall>k \<in> set ks. \<exists>s. k = JStr s"
  shows "py_unique (take a ks) (take b ks) = take (max a b) ks"
proof (induction b)
  case 0
  show ?case by (simp add: py_unique_def)
next
  case (Suc b)
  show ?case
  proof (cases "b < length ks")
    case True
    then have "take (Suc b) ks = take b ks @ [ks ! b]"
      by (simp add: take_Suc_conv_app_nth)
    then have "py_unique (take a ks) (take (Suc b) ks)
                 = add_label (py_unique (take a ks) (take b ks)) (ks ! b)"
      by (simp add: py_unique_def)
    also have "\<dots> = add_label (take (max a b) ks) (ks ! b)"
      by (simp add: Suc.IH)
    also have "\<dots> = take (max (max a b) (Suc b)) ks"
      using assms True by (intro add_label_take) simp_all
    also have "max (max a b) (Suc b) = max a (Suc b)" by simp
    finally show ?thesis .
  next
    case False
    then have "take (Suc b) ks = take b ks" by simp
    moreover from False have "take (max a (Suc b)) ks = take (max a b) ks" by simp
    ultimately show ?thesis using Suc.IH by simp
  qed
qed

lemma frame_columns_take:
  assumes "distinct ks" and "\<forall>k \<in> set ks. \<exists>s. k = JStr s"
  shows "foldl (\<lambda>acc r. py_unique acc (map fst r)) (take a ks) (map (zip ks) rs)
           = take (fold max (map length rs) a) ks"
proof (induction rs arbitrary: a)
  case Nil
  show ?case by simp
next
  case (Cons r rs)
  have "map fst (zip ks r) = take (length r) ks"
    by (cases "length r \<le> length ks") (simp_all add: map_fst_zip_take min_def)
  then have "py_unique (take a ks) (map fst (zip ks r)) = take (max a (length r)) ks"
    using py_unique_take [OF assms] by simp
  then show ?case using Cons.IH [of "max a (length r)"] by (simp add: max.commute)
qed

lemma fold_max_Max: "rs \<noteq> [] \<Longrightarrow> fold max (map length rs) (0::nat) = Max (length ` set rs)"
proof -
  assume "rs \<noteq> []"
  have "fold max (map length rs) (0::nat) = Max (set (0 # map length rs))"
    by (rule Max.set_eq_fold [symmetric])
  also have "\<dots> = Max (insert 0 (length ` set rs))" by simp
  also have "\<dots> = Max (length ` set rs)"
    using \<open>rs \<noteq> []\<close> by (subst Max_insert) simp_all
  finally show ?thesis .
qed

subsection \<open>Cells of a frame\<close>

lemma zip_take_right: "zip xs ys = zip xs (take (length xs) ys)"
proof -
  have "zip xs ys = take (length xs) (zip xs ys)" by simp
  also have "\<dots> = zip (take (length xs) xs) (take (length xs) ys)" by (rule take_zip)
  finally show ?thesis by simp
qed

lemma take_upt_nth: "n \<le> length ks \<Longrightarrow> take n ks = map ((!) ks) [0..<n]"
  by (simp add: list_eq_iff_nth_eq)

lemma frame_distinct:
  assumes "distinct names" and "rs \<noteq> []"
  defines "n \<equiv> min (length names) (Max (length ` set rs))"
  defines "df \<equiv> DataFrame (map (\<lambda>r. dict_of_pairs [] (zip (map JStr names) r)) rs)"
  shows "columns df = map JStr (take n names)"
    and "rows df = map (\<lambda>r. map (\<lambda>j. if j < length r then Some (r ! j) else None) [0..<n]) rs"
proof -
  let ?ks = "map JStr names"
  have dist: "distinct ?ks" using assms(1) by (simp add: distinct_map inj_on_def)
  have strs: "\<forall>k \<in> set ?ks. \<exists>s. k = JStr s" by auto
  have recs: "map (\<lambda>r. dict_of_pairs [] (zip ?ks r)) rs = map (zip ?ks) rs"
    using assms(1) by (simp add: record_distinct)
  have "columns df = take (fold max (map length rs) 0) ?ks"
    using frame_columns_take [OF dist strs, of 0 rs]
    by (simp add: df_def recs DataFrame_columns)
  also have "\<dots> = take (Max (length ` set rs)) ?ks"
    using assms(2) by (simp add: fold_max_Max)
  also have "\<dots> = take n ?ks"
    by (cases "Max (length ` set rs) \<le> length names") (simp_all add: n_def min_def)
  finally have cols: "columns df = take n ?ks" .
  then show "columns df = map JStr (take n names)" by (simp add: take_map)
  have n_le: "n \<le> length ?ks" by (simp add: n_def)
  have cell: "map (dict_get (zip ?ks r)) (take n ?ks)
                = map (\<lambda>j. if j < length r then Some (r ! j) else None) [0..<n]" for r
  proof -
    have "map (dict_get (zip ?ks r)) (take n ?ks)
            = map (\<lambda>j. dict_get (zip ?ks r) (?ks ! j)) [0..<n]"
      using n_le by (simp add: take_upt_nth [of n ?ks] comp_def del: length_map)
    also have "\<dots> = map (\<lambda>j. if j < length r then Some (r ! j) else None) [0..<n]"
    proof (rule map_cong [OF refl])
      fix j assume "j \<in> set [0..<n]"
      with n_le have "j < length ?ks" by simp
      then show "dict_get (zip ?ks r) (?ks ! j) = (if j < length r then Some (r ! j) else None)"
        by (rule dict_get_zip [OF dist strs])
    qed
    finally show ?thesis .
  qed
  have "rows df = map (\<lambda>r. map (dict_get (zip ?ks r)) (columns df)) rs"
    by (simp add: df_def recs DataFrame_rows comp_def)
  then show "rows df = map (\<lambda>r. map (\<lambda>j. if j < length r then Some (r ! j) else None) [0..<n]) rs"
    by (simp add: cols cell)
qed

section \<open>Lemmas about the transport client and the interface\<close>

lemma clean_params_present:
  "p \<in> set (clean_params params) \<Longrightarrow> snd p \<noteq> PNone \<and> snd p \<noteq> PStr ''''"
  by (simp add: clean_params_def)

text \<open>The events up to the request, and up to the response.\<close>

lemma make_api_request_failed:
  "http_get env url (clean_params params) = RequestFailed err \<Longrightarrow>
     make_api_request env self url params name =
       (JNull, (if debug_mode self
                then [InfoRequestUrl name url, InfoRequestParams name (clean_params params)]
                else [])
               @ [HttpGet url (clean_params params), ErrorGeneral name err])"
  by (auto simp: make_api_request_def Let_def)

lemma make_api_request_status:
  "http_get env url (clean_params params) = Response status_code text body \<Longrightarrow>
   400 \<le> status_code \<and> status_code < 600 \<Longrightarrow>
     make_api_request env self url params name =
       (JNull, (if debug_mode self
                then [InfoRequestUrl name url, InfoRequestParams name (clean_params params)]
                else [])
               @ [HttpGet url (clean_params params)]
               @ (if debug_mode self
                  then [InfoResponseStatus name status_code,
                        InfoResponsePreview name (take 500 text)]
                  else [])
               @ [ErrorHttp name status_code]
               @ (if debug_mode self then [ErrorResponseContent text] else []))"
  by (auto simp: make_api_request_def Let_def)

lemma make_api_request_decode:
  "http_get env url (clean_params params) = Response status_code text None \<Longrightarrow>
   \<not> (400 \<le> status_code \<and> status_code < 600) \<Longrightarrow>
     make_api_request env self url params name =
       (JNull, (if debug_mode self
                then [InfoRequestUrl name url, InfoRequestParams name (clean_params params)]
                else [])
               @ [HttpGet url (clean_params params)]
               @ (if debug_mode self
                  then [InfoResponseStatus name status_code,
                        InfoResponsePreview name (take 500 text)]
                  else [])
               @ [ErrorJsonDecode name]
               @ (if debug_mode self then [ErrorRawResponse text] else []))"
  by (auto simp: make_api_request_def Let_def)

lemma make_api_request_api_error:
  "http_get env url (clean_params params) = Response status_code text (Some (JObj kv)) \<Longrightarrow>
   \<not> (400 \<le> status_code \<and> status_code < 600) \<Longrightarrow> map_of kv ''error'' = Some e \<Longrightarrow>
     make_api_request env self url params name =
       (JNull, (if debug_mode self
                then [InfoRequestUrl name url, InfoRequestParams name (clean_params params)]
                else [])
               @ [HttpGet url (clean_params params)]
               @ (if debug_mode self
                  then [InfoResponseStatus name status_code,
                        InfoResponsePreview name (take 500 text)]
                  else [])
               @ [ErrorApi name e])"
  by (auto simp: make_api_request_def Let_def)

lemma make_api_request_payload:
  "http_get env url (clean_params params) = Response status_code text (Some data) \<Longrightarrow>
   \<not> (400 \<le> status_code \<and> status_code < 600) \<Longrightarrow>
   (\<And>kv. data = JObj kv \<Longrightarrow> map_of kv ''error'' = None) \<Longrightarrow>
     make_api_request env self url params name =
       (data, (if debug_mode self
               then [InfoRequestUrl name url, InfoRequestParams name (clean_params params)]
               else [])
              @ [HttpGet url (clean_params params)]
              @ (if debug_mode self
                 then [InfoResponseStatus name status_code,
                       InfoResponsePreview name (take 500 text)]
                 else []))"
  by (cases data) (auto simp: make_api_request_def Let_def)

lemma make_api_request_sends:
  "HttpGet u q \<in> set (snd (make_api_request env self url params name))
     \<longleftrightarrow> u = url \<and> q = clean_params params"
proof (cases "http_get env url (clean_params params)")
  case (RequestFailed err)
  then show ?thesis by (auto simp: make_api_request_failed)
next
  case (Response status_code content body)
  show ?thesis
  proof (cases "400 \<le> status_code \<and> status_code < 600")
    case True
    with Response show ?thesis by (auto simp: make_api_request_status)
  next
    case False
    show ?thesis
    proof (cases body)
      case None
      with Response False show ?thesis by (auto simp: make_api_request_decode)
    next
      case (Some data)
      show ?thesis
      proof (cases "\<exists>kv e. data = JObj kv \<and> map_of kv ''error'' = Some e")
        case True
        then obtain kv e where "data = JObj kv" and "map_of kv ''error'' = Some e" by blast
        with Response False Some show ?thesis by (auto simp: make_api_request_api_error)
      next
        case no_error: False
        then have "\<And>kv. data = JObj kv \<Longrightarrow> map_of kv ''error'' = None" by auto
        with Response False Some show ?thesis by (auto simp: make_api_request_payload)
      qed
    qed
  qed
qed

lemma get_fireballs_trace:
  "\<exists>params. get_fireballs env self limit date_min energy_min
     = make_api_request env self (fireball_url self) params ''Fireball API''"
  unfolding get_fireballs_def Let_def by blast

lemma get_close_approaches_trace:
  "\<exists>params. get_close_approaches env self dist_max date_min date_max h_min h_max
               v_inf_min v_inf_max limit
     = make_api_request env self (ca_url self) params ''Close Approaches API''"
  unfolding get_close_approaches_def Let_def by blast

lemma fetch_fireballs_parsed:
  assumes "float_optional env energy_min = Inr e"
  shows "snd (fetch_fireballs env limit date_min energy_min)
           = snd (get_fireballs env init_api limit (strip_optional date_min) e)"
proof -
  obtain data trace where
    "get_fireballs env init_api limit (strip_optional date_min) e = (data, trace)"
    by (cases "get_fireballs env init_api limit (strip_optional date_min) e")
  with assms show ?thesis
    by (simp add: fetch_fireballs_def split: option.splits)
qed

lemma fetch_fireballs_unparsed:
  assumes "float_optional env energy_min = Inl ve"
  shows "fetch_fireballs env limit date_min energy_min
           = ((Message (''Error: Invalid energy value '' @ [CHR 0x27] @ energy_min @ [CHR 0x27]
                        @ ''. Please enter a valid number.''), None), [])"
  using assms by (simp add: fetch_fireballs_def)

lemma fetch_fireballs_trace:
  "snd (fetch_fireballs env limit date_min energy_min) = []
   \<or> (\<exists>params. snd (fetch_fireballs env limit date_min energy_min)
         = snd (make_api_request env init_api (fireball_url init_api) params ''Fireball API''))"
proof (cases "float_optional env energy_min")
  case (Inl ve)
  then show ?thesis by (simp add: fetch_fireballs_unparsed)
next
  case (Inr e)
  from get_fireballs_trace [of env init_api limit "strip_optional date_min" e]
  obtain params where "get_fireballs env init_api limit (strip_optional date_min) e
     = make_api_request env init_api (fireball_url init_api) params ''Fireball API''" ..
  with Inr have "snd (fetch_fireballs env limit date_min energy_min)
         = snd (make_api_request env init_api (fireball_url init_api) params ''Fireball API'')"
    by (simp add: fetch_fireballs_parsed)
  then show ?thesis by blast
qed

lemma fetch_close_approaches_parsed:
  assumes "float_inputs env dist_max h_min h_max v_inf_min v_inf_max = Inr (a, b, c, d, e)"
  shows "snd (fetch_close_approaches env limit dist_max date_min date_max h_min h_max
                v_inf_min v_inf_max)
           = snd (get_close_approaches env init_api a (strip_optional date_min)
                    (strip_optional date_max) b c d e limit)"
proof -
  obtain data trace where
    "get_close_approaches env init_api a (strip_optional date_min)
       (strip_optional date_max) b c d e limit = (data, trace)"
    by (cases "get_close_approaches env init_api a (strip_optional date_min)
                 (strip_optional date_max) b c d e limit")
  with assms show ?thesis
    by (simp add: fetch_close_approaches_def split: option.splits)
qed

lemma fetch_close_approaches_unparsed:
  assumes "float_inputs env dist_max h_min h_max v_inf_min v_inf_max = Inl ve"
  shows "fetch_close_approaches env limit dist_max date_min date_max h_min h_max
           v_inf_min v_inf_max
           = ((Message (''Error: Invalid numeric input - '' @ ve), None), [])"
  using assms by (simp add: fetch_close_approaches_def)

lemma fetch_close_approaches_trace:
  "snd (fetch_close_approaches env limit dist_max date_min date_max h_min h_max v_inf_min v_inf_max)
     = []
   \<or> (\<exists>params.
        snd (fetch_close_approaches env limit dist_max date_min date_max h_min h_max
               v_inf_min v_inf_max)
          = snd (make_api_request env init_api (ca_url init_api) params ''Close Approaches API''))"
proof (cases "float_inputs env dist_max h_min h_max v_inf_min v_inf_max")
  case (Inl ve)
  then show ?thesis by (simp add: fetch_close_approaches_unparsed)
next
  case (Inr parsed)
  obtain a b c d e where parsed: "parsed = (a, b, c, d, e)" by (cases parsed)
  from get_close_approaches_trace [of env init_api a "strip_optional date_min"
         "strip_optional date_max" b c d e limit]
  obtain params where "get_close_approaches env init_api a (strip_optional date_min)
         (strip_optional date_max) b c d e limit
     = make_api_request env init_api (ca_url init_api) params ''Close Approaches API''" ..
  with Inr parsed have
    "snd (fetch_close_approaches env limit dist_max date_min date_max h_min h_max
            v_inf_min v_inf_max)
       = snd (make_api_request env init_api (ca_url init_api) params ''Close Approaches API'')"
    by (simp add: fetch_close_approaches_parsed)
  then show ?thesis by blast
qed

subsection \<open>Results of the interface functions\<close>

lemma make_api_request_error_key:
  assumes "http_get env url (clean_params params) = Response status_code text (Some (JObj kv))"
      and "map_of kv ''error'' = Some e"
  shows "fst (make_api_request env self url params name) = JNull"
proof (cases "400 \<le> status_code \<and> status_code < 600")
  case True
  with assms(1) show ?thesis by (simp add: make_api_request_status)
next
  case False
  with assms show ?thesis by (simp add: make_api_request_api_error)
qed

lemma fetch_fireballs_no_data:
  assumes "float_optional env energy_min = Inr e"
      and "\<not> py_truthy (fst (get_fireballs env init_api limit (strip_optional date_min) e))"
  shows "fst (fetch_fireballs env limit date_min energy_min) = (Message no_data_returned, None)"
proof -
  obtain data trace where
    "get_fireballs env init_api limit (strip_optional date_min) e = (data, trace)"
    by (cases "get_fireballs env init_api limit (strip_optional date_min) e")
  with assms show ?thesis by (simp add: fetch_fireballs_def)
qed

lemma fetch_close_approaches_no_data:
  assumes "float_inputs env dist_max h_min h_max v_inf_min v_inf_max = Inr (a, b, c, d, e)"
      and "\<not> py_truthy (fst (get_close_approaches env init_api a (strip_optional date_min)
                               (strip_optional date_max) b c d e limit))"
  shows "fst (fetch_close_approaches env limit dist_max date_min date_max h_min h_max
                v_inf_min v_inf_max) = (Message no_data_returned, None)"
proof -
  obtain data trace where
    "get_close_approaches env init_api a (strip_optional date_min)
       (strip_optional date_max) b c d e limit = (data, trace)"
    by (cases "get_close_approaches env init_api a (strip_optional date_min)
                 (strip_optional date_max) b c d e limit")
  with assms show ?thesis by (simp add: fetch_close_approaches_def)
qed

lemma format_response_try_Some:
  assumes "format_response_try data t = Inr (Some df)"
  shows "\<exists>df0. df = rename_step t df0 \<and> \<not> df_empty df0"
proof -
  from assms have truthy: "py_truthy data"
    by (cases "py_truthy data") (simp_all add: format_response_try_def)
  from assms truthy obtain sig where sig: "py_get data ''signature'' JNull = Inr sig"
    by (cases "py_get data ''signature'' JNull") (simp_all add: format_response_try_def)
  from assms truthy sig obtain flds where flds: "py_get data ''fields'' sig = Inr flds"
    by (cases "py_get data ''fields'' sig") (simp_all add: format_response_try_def)
  from assms truthy sig flds obtain rs where rs: "py_get data ''data'' JNull = Inr rs"
    by (cases "py_get data ''data'' JNull") (simp_all add: format_response_try_def)
  from assms truthy sig flds rs have guard: "py_truthy flds \<and> py_truthy rs"
    by (cases "py_truthy flds \<and> py_truthy rs") (simp_all add: format_response_try_def)
  from assms truthy sig flds rs guard obtain recs where recs: "records_of flds rs = Inr recs"
    by (cases "records_of flds rs") (simp_all add: format_response_try_def)
  from assms truthy sig flds rs guard recs
  have "\<not> df_empty (DataFrame recs)" and "df = rename_step t (DataFrame recs)"
    by (cases "df_empty (DataFrame recs)"; simp add: format_response_try_def Let_def)+
  then show ?thesis by blast
qed

lemma format_response_nonempty:
  assumes "format_response data t = Some df"
  shows "\<not> df_empty df"
proof -
  from assms have "format_response_try data t = Inr (Some df)"
    by (cases "format_response_try data t") (simp_all add: format_response_def)
  then obtain df0 where "df = rename_step t df0" and "\<not> df_empty df0"
    using format_response_try_Some by blast
  then show ?thesis
    by (simp add: df_empty_def rename_step_rows rename_step_columns_eq)
qed

lemma fetch_fireballs_table:
  assumes "float_optional env energy_min = Inr e"
      and "get_fireballs env init_api limit (strip_optional date_min) e = (data, trace)"
      and "py_truthy data"
      and "format_response data ''fireballs'' = Some df"
  shows "fetch_fireballs env limit date_min energy_min = (fireball_chart env df, trace)"
  using assms format_response_nonempty [OF assms(4)]
  by (simp add: fetch_fireballs_def)

lemma fetch_close_approaches_table:
  assumes "float_inputs env dist_max h_min h_max v_inf_min v_inf_max = Inr (a, b, c, d, e)"
      and "get_close_approaches env init_api a (strip_optional date_min)
             (strip_optional date_max) b c d e limit = (data, trace)"
      and "py_truthy data"
      and "format_response data ''close_approaches'' = Some df"
  shows "fetch_close_approaches env limit dist_max date_min date_max h_min h_max
           v_inf_min v_inf_max = (close_approach_chart env df, trace)"
  using assms format_response_nonempty [OF assms(4)]
  by (simp add: fetch_close_approaches_def)

subsection \<open>The numeric inputs\<close>

lemma float_optional_Inl:
  "float_optional env s = Inl ve \<longleftrightarrow> s \<noteq> '''' \<and> py_float env s = Inl ve"
  by (auto simp: float_optional_def split: sum.splits)

lemma float_optional_cases:
  obtains (bad) ve where "s \<noteq> ''''" and "py_float env s = Inl ve"
                     and "float_optional env s = Inl ve"
        | (good) x where "\<not> (s \<noteq> '''' \<and> (\<exists>m. py_float env s = Inl m))"
                     and "float_optional env s = Inr x"
  by (cases "s = ''''"; cases "py_float env s") (auto simp: float_optional_def)

lemma float_inputs_first_failure:
  assumes "\<exists>s \<in> set [dist_max, h_min, h_max, v_inf_min, v_inf_max].
             s \<noteq> '''' \<and> (\<exists>m. py_float env s = Inl m)"
  shows "\<exists>s \<in> set [dist_max, h_min, h_max, v_inf_min, v_inf_max].
           s \<noteq> '''' \<and> (\<exists>ve. py_float env s = Inl ve
              \<and> float_inputs env dist_max h_min h_max v_inf_min v_inf_max = Inl ve)"
proof -
  let ?goal = "\<lambda>s. s \<noteq> '''' \<and> (\<exists>ve. py_float env s = Inl ve
              \<and> float_inputs env dist_max h_min h_max v_inf_min v_inf_max = Inl ve)"
  have "?goal dist_max \<or> ?goal h_min \<or> ?goal h_max \<or> ?goal v_inf_min \<or> ?goal v_inf_max"
  proof (cases rule: float_optional_cases [of dist_max env])
    case (bad ve)
    then have "float_inputs env dist_max h_min h_max v_inf_min v_inf_max = Inl ve"
      by (simp add: float_inputs_def)
    with bad show ?thesis by blast
  next
    case a: (good a)
    show ?thesis
    proof (cases rule: float_optional_cases [of h_min env])
      case (bad ve)
      with a have "float_inputs env dist_max h_min h_max v_inf_min v_inf_max = Inl ve"
        by (simp add: float_inputs_def)
      with bad show ?thesis by blast
    next
      case b: (good b)
      show ?thesis
      proof (cases rule: float_optional_cases [of h_max env])
        case (bad ve)
        with a b have "float_inputs env dist_max h_min h_max v_inf_min v_inf_max = Inl ve"
          by (simp add: float_inputs_def)
        with bad show ?thesis by blast
      next
        case c: (good c)
        show ?thesis
        proof (cases rule: float_optional_cases [of v_inf_min env])
          case (bad ve)
          with a b c have "float_inputs env dist_max h_min h_max v_inf_min v_inf_max = Inl ve"
            by (simp add: float_inputs_def)
          with bad show ?thesis by blast
        next
          case d: (good d)
          show ?thesis
          proof (cases rule: float_optional_cases [of v_inf_max env])
            case (bad ve)
            with a b c d have "float_inputs env dist_max h_min h_max v_inf_min v_inf_max = Inl ve"
              by (simp add: float_inputs_def)
            with bad show ?thesis by blast
          next
            case (good e)
            from assms have "(dist_max \<noteq> '''' \<and> (\<exists>m. py_float env dist_max = Inl m))
                \<or> (h_min \<noteq> '''' \<and> (\<exists>m. py_float env h_min = Inl m))
                \<or> (h_max \<noteq> '''' \<and> (\<exists>m. py_float env h_max = Inl m))
                \<or> (v_inf_min \<noteq> '''' \<and> (\<exists>m. py_float env v_inf_min = Inl m))
                \<or> (v_inf_max \<noteq> '''' \<and> (\<exists>m. py_float env v_inf_max = Inl m))"
              by simp
            with a(1) b(1) c(1) d(1) good(1) show ?thesis by blast
          qed
        qed
      qed
    qed
  qed
  then show ?thesis by simp
qed

section \<open>The claims\<close>

text \<open>
  Claim C1 (well-formed payloads give a table). As written, the claim also covers a
  payload whose list of field names is empty; there line 111 returns \<^verbatim>\<open>None\<close>. With a
  non-empty list of field names it holds: for a dict payload whose column source (the
  value of \<^verbatim>\<open>fields\<close>, or of \<^verbatim>\<open>signature\<close> when there is no \<^verbatim>\<open>fields\<close> key) is a non-empty
  list of names and whose \<^verbatim>\<open>data\<close> is a non-empty list of rows, each as long as the list
  of names, \<open>format_response\<close> returns a table with one row per element of \<^verbatim>\<open>data\<close>,
  and every column label is a display name of the format type's rename table or one of
  the field names.
\<close>

theorem format_response_well_formed:
  assumes "map_of kv ''fields'' = Some (JArr (map JStr names))
           \<or> (map_of kv ''fields'' = None \<and> map_of kv ''signature'' = Some (JArr (map JStr names)))"
      and "map_of kv ''data'' = Some (JArr (map JArr rs))"
      and "names \<noteq> []" and "rs \<noteq> []"
      and "\<forall>r \<in> set rs. length r = length names"
  shows "\<exists>df. format_response (JObj kv) t = Some df
           \<and> length (rows df) = length rs
           \<and> set (columns df) \<subseteq> JStr ` snd ` set (rename_map_of t) \<union> JStr ` set names"
proof -
  define recs where "recs = map (\<lambda>r. dict_of_pairs [] (zip (map JStr names) r)) rs"
  define df where "df = DataFrame recs"
  have keys: "fst ` set rc \<subseteq> JStr ` set names" if "rc \<in> set recs" for rc
  proof -
    from that obtain r where "rc = dict_of_pairs [] (zip (map JStr names) r)"
      by (auto simp: recs_def)
    then have "fst ` set rc \<subseteq> fst ` set (zip (map JStr names) r)"
      using dict_of_pairs_keys [of "[]" "zip (map JStr names) r"] by simp
    also have "\<dots> \<subseteq> JStr ` set names"
    proof
      fix k assume "k \<in> fst ` set (zip (map JStr names) r)"
      then obtain v where "(k, v) \<in> set (zip (map JStr names) r)" by auto
      then have "k \<in> set (map JStr names)" by (rule set_zip_leftD)
      then show "k \<in> JStr ` set names" by simp
    qed
    finally show ?thesis .
  qed
  have "\<exists>rc \<in> set recs. rc \<noteq> []"
  proof -
    from \<open>rs \<noteq> []\<close> obtain r where r: "r \<in> set rs" by (cases rs) auto
    with assms(5) \<open>names \<noteq> []\<close> have "zip (map JStr names) r \<noteq> []"
      by (cases names; cases r) auto
    then have "dict_of_pairs [] (zip (map JStr names) r) \<noteq> []"
      by (intro dict_of_pairs_nonempty) simp
    with r show ?thesis by (auto simp: recs_def)
  qed
  then have cols_ne: "columns df \<noteq> []"
    by (simp add: df_def DataFrame_columns frame_columns_nonempty)
  have rows_len: "length (rows df) = length rs"
    by (simp add: df_def DataFrame_rows recs_def)
  with \<open>rs \<noteq> []\<close> cols_ne have "\<not> df_empty df"
    by (auto simp: df_empty_def)
  then have res: "format_response (JObj kv) t = Some (rename_step t df)"
    using format_response_try_lists [OF assms(1-4), of t]
    by (simp add: format_response_def df_def recs_def)
  have "(\<Union>rc \<in> set recs. fst ` set rc) \<subseteq> JStr ` set names"
    using keys by blast
  moreover have "set (columns df) \<subseteq> (\<Union>rc \<in> set recs. fst ` set rc)"
    using frame_columns_set [of "[]" recs] by (simp add: df_def DataFrame_columns)
  ultimately have "set (columns df) \<subseteq> JStr ` set names"
    by (rule order_trans [rotated])
  then have "set (columns (rename_step t df))
               \<subseteq> JStr ` snd ` set (rename_map_of t) \<union> JStr ` set names"
    using rename_step_columns [of t df] by blast
  with res rows_len show ?thesis by (simp add: rename_step_rows)
qed

theorem format_response_well_formed_witness:
  "map_of [(''fields'', JArr [JStr ''date'', JStr ''energy'', JStr ''lat'', JStr ''lon'']),
           (''data'', JArr [JArr [JStr ''2023-01-01T00:00:00'', JNum (1 / 2), JNum 10, JNum (- 20)]])]
     ''data''
     = Some (JArr (map JArr [[JStr ''2023-01-01T00:00:00'', JNum (1 / 2), JNum 10, JNum (- 20)]]))
   \<and> length [JStr ''2023-01-01T00:00:00'', JNum (1 / 2), JNum 10, JNum (- 20)]
       = length [''date'', ''energy'', ''lat'', ''lon'']
   \<and> (\<exists>df. format_response
               (JObj [(''fields'', JArr [JStr ''date'', JStr ''energy'', JStr ''lat'', JStr ''lon'']),
                      (''data'', JArr [JArr [JStr ''2023-01-01T00:00:00'', JNum (1 / 2), JNum 10,
                                             JNum (- 20)]])])
               ''fireballs'' = Some df
           \<and> length (rows df) = 1
           \<and> set (columns df) \<subseteq> JStr ` snd ` set (rename_map_of ''fireballs'')
                                  \<union> JStr ` set [''date'', ''energy'', ''lat'', ''lon''])"
  using format_response_well_formed
    [where kv = "[(''fields'', JArr [JStr ''date'', JStr ''energy'', JStr ''lat'', JStr ''lon'']),
                  (''data'', JArr [JArr [JStr ''2023-01-01T00:00:00'', JNum (1 / 2), JNum 10,
                                         JNum (- 20)]])]"
       and names = "[''date'', ''energy'', ''lat'', ''lon'']"
       and rs = "[[JStr ''2023-01-01T00:00:00'', JNum (1 / 2), JNum 10, JNum (- 20)]]"
       and t = "''fireballs''"]
  by simp

text \<open>
  The payload \<^verbatim>\<open>{"fields": [], "data": [[]]}\<close> is well formed in the words of the claim
  (its one row is as long as the list of fields), and no table comes back.
\<close>

theorem format_response_empty_fields_counterexample:
  "format_response (JObj [(''fields'', JArr []), (''data'', JArr [JArr []])]) ''fireballs'' = None"
  by (simp add: format_response_def format_response_try_def py_get_def)

text \<open>
  Claim C2 (what the transport client returns). As written, the claim has the client
  return a typed failure that lets the caller tell the failure kinds apart; the code
  returns \<^verbatim>\<open>None\<close> for each of them and writes the kind to the log only. What holds:
  \<open>make_api_request\<close> returns the parsed payload or \<^verbatim>\<open>None\<close>; an exception of
  \<^verbatim>\<open>requests.get\<close>, a status from 400 to 599, a body that is not JSON, and a JSON dict
  with an \<^verbatim>\<open>error\<close> key each give \<^verbatim>\<open>None\<close> and an error record of their own kind (the
  HTTP record with the status and, in debug mode, the body); any other response gives
  its payload.
\<close>

theorem make_api_request_outcomes:
  "(http_get env url (clean_params params) = RequestFailed err \<longrightarrow>
      fst (make_api_request env self url params name) = JNull
      \<and> ErrorGeneral name err \<in> set (snd (make_api_request env self url params name)))
   \<and> (http_get env url (clean_params params) = Response status_code content body
        \<and> 400 \<le> status_code \<and> status_code < 600 \<longrightarrow>
      fst (make_api_request env self url params name) = JNull
      \<and> ErrorHttp name status_code \<in> set (snd (make_api_request env self url params name))
      \<and> (debug_mode self \<longrightarrow>
            ErrorResponseContent content \<in> set (snd (make_api_request env self url params name))))
   \<and> (http_get env url (clean_params params) = Response status_code content None
        \<and> \<not> (400 \<le> status_code \<and> status_code < 600) \<longrightarrow>
      fst (make_api_request env self url params name) = JNull
      \<and> ErrorJsonDecode name \<in> set (snd (make_api_request env self url params name)))
   \<and> (http_get env url (clean_params params) = Response status_code content (Some (JObj kv))
        \<and> \<not> (400 \<le> status_code \<and> status_code < 600) \<and> map_of kv ''error'' = Some e \<longrightarrow>
      fst (make_api_request env self url params name) = JNull
      \<and> ErrorApi name e \<in> set (snd (make_api_request env self url params name)))
   \<and> (http_get env url (clean_params params) = Response status_code content (Some data)
        \<and> \<not> (400 \<le> status_code \<and> status_code < 600)
        \<and> (\<forall>kv. data = JObj kv \<longrightarrow> map_of kv ''error'' = None) \<longrightarrow>
      fst (make_api_request env self url params name) = data)"
proof (intro conjI impI; (elim conjE)?)
  assume "http_get env url (clean_params params) = RequestFailed err"
  then have eq: "make_api_request env self url params name =
       (JNull, (if debug_mode self
                then [InfoRequestUrl name url, InfoRequestParams name (clean_params params)]
                else [])
               @ [HttpGet url (clean_params params), ErrorGeneral name err])"
    by (rule make_api_request_failed)
  show "fst (make_api_request env self url params name) = JNull"
    and "ErrorGeneral name err \<in> set (snd (make_api_request env self url params name))"
    by (simp_all add: eq)
next
  assume "http_get env url (clean_params params) = Response status_code content body"
    and "400 \<le> status_code" and "status_code < 600"
  then have eq: "make_api_request env self url params name = (JNull, (if debug_mode self
                then [InfoRequestUrl name url, InfoRequestParams name (clean_params params)]
                else [])
               @ [HttpGet url (clean_params params)]
               @ (if debug_mode self
                  then [InfoResponseStatus name status_code,
                        InfoResponsePreview name (take 500 content)]
                  else [])
               @ [ErrorHttp name status_code]
               @ (if debug_mode self then [ErrorResponseContent content] else []))"
    by (intro make_api_request_status) simp_all
  show "fst (make_api_request env self url params name) = JNull"
    and "ErrorHttp name status_code \<in> set (snd (make_api_request env self url params name))"
    by (simp_all add: eq)
  show "ErrorResponseContent content \<in> set (snd (make_api_request env self url params name))"
    if "debug_mode self"
    using that by (simp add: eq)
next
  assume "http_get env url (clean_params params) = Response status_code content None"
    and "\<not> (400 \<le> status_code \<and> status_code < 600)"
  then have eq: "make_api_request env self url params name =
       (JNull, (if debug_mode self
                then [InfoRequestUrl name url, InfoRequestParams name (clean_params params)]
                else [])
               @ [HttpGet url (clean_params params)]
               @ (if debug_mode self
                  then [InfoResponseStatus name status_code,
                        InfoResponsePreview name (take 500 content)]
                  else [])
               @ [ErrorJsonDecode name]
               @ (if debug_mode self then [ErrorRawResponse content] else []))"
    by (rule make_api_request_decode)
  show "fst (make_api_request env self url params name) = JNull"
    and "ErrorJsonDecode name \<in> set (snd (make_api_request env self url params name))"
    by (simp_all add: eq)
next
  assume "http_get env url (clean_params params) = Response status_code content (Some (JObj kv))"
    and "\<not> (400 \<le> status_code \<and> status_code < 600)" and "map_of kv ''error'' = Some e"
  then have eq: "make_api_request env self url params name =
       (JNull, (if debug_mode self
                then [InfoRequestUrl name url, InfoRequestParams name (clean_params params)]
                else [])
               @ [HttpGet url (clean_params params)]
               @ (if debug_mode self
                  then [InfoResponseStatus name status_code,
                        InfoResponsePreview name (take 500 content)]
                  else [])
               @ [ErrorApi name e])"
    by (rule make_api_request_api_error)
  show "fst (make_api_request env self url params name) = JNull"
    and "ErrorApi name e \<in> set (snd (make_api_request env self url params name))"
    by (simp_all add: eq)
next
  assume "http_get env url (clean_params params) = Response status_code content (Some data)"
    and "\<not> (400 \<le> status_code \<and> status_code < 600)"
    and "\<forall>kv. data = JObj kv \<longrightarrow> map_of kv ''error'' = None"
  then show "fst (make_api_request env self url params name) = data"
    by (simp add: make_api_request_payload)
qed

theorem make_api_request_outcomes_witness:
  "fst (make_api_request (example_env (RequestFailed ''timed out'')) init_api
          ''https://ssd-api.jpl.nasa.gov/cad.api'' [(''limit'', PInt 10)] ''API'') = JNull
   \<and> ErrorGeneral ''API'' ''timed out''
       \<in> set (snd (make_api_request (example_env (RequestFailed ''timed out'')) init_api
                      ''https://ssd-api.jpl.nasa.gov/cad.api'' [(''limit'', PInt 10)] ''API''))
   \<and> fst (make_api_request (example_env (Response 503 ''busy'' None)) init_api
            ''https://ssd-api.jpl.nasa.gov/cad.api'' [(''limit'', PInt 10)] ''API'') = JNull
   \<and> ErrorHttp ''API'' 503
       \<in> set (snd (make_api_request (example_env (Response 503 ''busy'' None)) init_api
                      ''https://ssd-api.jpl.nasa.gov/cad.api'' [(''limit'', PInt 10)] ''API''))
   \<and> ErrorResponseContent ''busy''
       \<in> set (snd (make_api_request (example_env (Response 503 ''busy'' None)) init_api
                      ''https://ssd-api.jpl.nasa.gov/cad.api'' [(''limit'', PInt 10)] ''API''))
   \<and> fst (make_api_request (example_env (Response 200 ''<html>'' None)) init_api
            ''https://ssd-api.jpl.nasa.gov/cad.api'' [(''limit'', PInt 10)] ''API'') = JNull
   \<and> ErrorJsonDecode ''API''
       \<in> set (snd (make_api_request (example_env (Response 200 ''<html>'' None)) init_api
                      ''https://ssd-api.jpl.nasa.gov/cad.api'' [(''limit'', PInt 10)] ''API''))
   \<and> fst (make_api_request
            (example_env (Response 200 ''{}'' (Some (JObj [(''error'', JStr ''no records'')]))))
            init_api ''https://ssd-api.jpl.nasa.gov/cad.api'' [(''limit'', PInt 10)] ''API'')
       = JNull
   \<and> ErrorApi ''API'' (JStr ''no records'')
       \<in> set (snd (make_api_request
                      (example_env
                         (Response 200 ''{}'' (Some (JObj [(''error'', JStr ''no records'')]))))
                      init_api ''https://ssd-api.jpl.nasa.gov/cad.api'' [(''limit'', PInt 10)]
                      ''API''))
   \<and> fst (make_api_request
            (example_env (Response 200 ''{}'' (Some (JObj [(''count'', JNum 0)]))))
            init_api ''https://ssd-api.jpl.nasa.gov/cad.api'' [(''limit'', PInt 10)] ''API'')
       = JObj [(''count'', JNum 0)]"
  using
    make_api_request_outcomes
      [where env = "example_env (RequestFailed ''timed out'')" and self = init_api
         and url = "''https://ssd-api.jpl.nasa.gov/cad.api''" and params = "[(''limit'', PInt 10)]"
         and name = "''API''" and err = "''timed out''"]
    make_api_request_outcomes
      [where env = "example_env (Response 503 ''busy'' None)" and self = init_api
         and url = "''https://ssd-api.jpl.nasa.gov/cad.api''" and params = "[(''limit'', PInt 10)]"
         and name = "''API''" and status_code = 503 and content = "''busy''" and body = None]
    make_api_request_outcomes
      [where env = "example_env (Response 200 ''<html>'' None)" and self = init_api
         and url = "''https://ssd-api.jpl.nasa.gov/cad.api''" and params = "[(''limit'', PInt 10)]"
         and name = "''API''" and status_code = 200 and content = "''<html>''"]
    make_api_request_outcomes
      [where env = "example_env (Response 200 ''{}'' (Some (JObj [(''error'', JStr ''no records'')])))"
         and self = init_api
         and url = "''https://ssd-api.jpl.nasa.gov/cad.api''" and params = "[(''limit'', PInt 10)]"
         and name = "''API''" and status_code = 200 and content = "''{}''"
         and kv = "[(''error'', JStr ''no records'')]" and e = "JStr ''no records''"]
    make_api_request_outcomes
      [where env = "example_env (Response 200 ''{}'' (Some (JObj [(''count'', JNum 0)])))"
         and self = init_api
         and url = "''https://ssd-api.jpl.nasa.gov/cad.api''" and params = "[(''limit'', PInt 10)]"
         and name = "''API''" and status_code = 200 and content = "''{}''"
         and data = "JObj [(''count'', JNum 0)]"]
  by (simp add: example_env_def init_api_def)

text \<open>
  A request that times out and a response with status 503 give the caller the same
  object, \<^verbatim>\<open>None\<close>, and so does a response whose body is the JSON value \<^verbatim>\<open>null\<close>.
\<close>

theorem make_api_request_untyped_counterexample:
  "fst (make_api_request (example_env (RequestFailed ''timed out'')) init_api
          ''https://ssd-api.jpl.nasa.gov/cad.api'' [(''limit'', PInt 10)] ''API'')
     = fst (make_api_request (example_env (Response 503 ''busy'' None)) init_api
              ''https://ssd-api.jpl.nasa.gov/cad.api'' [(''limit'', PInt 10)] ''API'')
   \<and> fst (make_api_request (example_env (RequestFailed ''timed out'')) init_api
            ''https://ssd-api.jpl.nasa.gov/cad.api'' [(''limit'', PInt 10)] ''API'')
     = fst (make_api_request (example_env (Response 200 ''null'' (Some JNull))) init_api
              ''https://ssd-api.jpl.nasa.gov/cad.api'' [(''limit'', PInt 10)] ''API'')"
  by (simp add: make_api_request_def example_env_def init_api_def)

text \<open>
  Claim C3 (no absent or empty parameter is sent). The request of \<open>make_api_request\<close>
  carries the cleaned parameters, and in every request that \<open>make_api_request\<close>,
  \<open>fetch_fireballs\<close> or \<open>fetch_close_approaches\<close> sends, no parameter is bound to
  \<^verbatim>\<open>None\<close> or to the empty string.
\<close>

theorem transmitted_params_present:
  "HttpGet url (clean_params params) \<in> set (snd (make_api_request env self url params name))
   \<and> (\<forall>u q. HttpGet u q \<in> set (snd (make_api_request env self url params name)) \<longrightarrow>
          (\<forall>p \<in> set q. snd p \<noteq> PNone \<and> snd p \<noteq> PStr ''''))
   \<and> (\<forall>u q. HttpGet u q \<in> set (snd (fetch_fireballs env limit date_min energy_min)) \<longrightarrow>
          (\<forall>p \<in> set q. snd p \<noteq> PNone \<and> snd p \<noteq> PStr ''''))
   \<and> (\<forall>u q. HttpGet u q \<in> set (snd (fetch_close_approaches env limit dist_max date_min' date_max
                                         h_min h_max v_inf_min v_inf_max)) \<longrightarrow>
          (\<forall>p \<in> set q. snd p \<noteq> PNone \<and> snd p \<noteq> PStr ''''))"
proof -
  have sent: "\<forall>p \<in> set q. snd p \<noteq> PNone \<and> snd p \<noteq> PStr ''''"
    if "HttpGet u q \<in> set (snd (make_api_request env self' url' ps name'))"
    for u q self' url' name' and ps :: "'a params"
  proof -
    from that have "q = clean_params ps" by (simp add: make_api_request_sends)
    then show ?thesis by (simp add: clean_params_present)
  qed
  have "HttpGet url (clean_params params) \<in> set (snd (make_api_request env self url params name))"
    by (simp add: make_api_request_sends)
  moreover have "\<forall>u q. HttpGet u q \<in> set (snd (make_api_request env self url params name)) \<longrightarrow>
          (\<forall>p \<in> set q. snd p \<noteq> PNone \<and> snd p \<noteq> PStr '''')"
    using sent by blast
  moreover have "\<forall>u q. HttpGet u q \<in> set (snd (fetch_fireballs env limit date_min energy_min)) \<longrightarrow>
          (\<forall>p \<in> set q. snd p \<noteq> PNone \<and> snd p \<noteq> PStr '''')"
  proof (intro allI impI)
    fix u q
    assume "HttpGet u q \<in> set (snd (fetch_fireballs env limit date_min energy_min))"
    with fetch_fireballs_trace [of env limit date_min energy_min]
    obtain ps where "HttpGet u q
        \<in> set (snd (make_api_request env init_api (fireball_url init_api) ps ''Fireball API''))"
      by auto
    then show "\<forall>p \<in> set q. snd p \<noteq> PNone \<and> snd p \<noteq> PStr ''''" by (rule sent)
  qed
  moreover have "\<forall>u q. HttpGet u q \<in> set (snd (fetch_close_approaches env limit dist_max date_min'
                        date_max h_min h_max v_inf_min v_inf_max)) \<longrightarrow>
          (\<forall>p \<in> set q. snd p \<noteq> PNone \<and> snd p \<noteq> PStr '''')"
  proof (intro allI impI)
    fix u q
    assume "HttpGet u q \<in> set (snd (fetch_close_approaches env limit dist_max date_min'
                        date_max h_min h_max v_inf_min v_inf_max))"
    with fetch_close_approaches_trace
           [of env limit dist_max date_min' date_max h_min h_max v_inf_min v_inf_max]
    obtain ps where "HttpGet u q
        \<in> set (snd (make_api_request env init_api (ca_url init_api) ps ''Close Approaches API''))"
      by auto
    then show "\<forall>p \<in> set q. snd p \<noteq> PNone \<and> snd p \<noteq> PStr ''''" by (rule sent)
  qed
  ultimately show ?thesis by (intro conjI)
qed

theorem transmitted_params_present_witness:
  "HttpGet ''https://ssd-api.jpl.nasa.gov/cad.api''
     [(''limit'', PInt 10), (''dist-max'', PFloat (1 / 2)), (''sort'', PStr ''date'')]
     \<in> set (snd (fetch_close_approaches (example_env (RequestFailed ''timed out'')) 10
                    ''0.5'' ''  '' '''' '''' '''' '''' ''''))
   \<and> list_all (\<lambda>p. snd p \<noteq> PNone \<and> snd p \<noteq> PStr '''')
        [(''limit'', PInt 10), (''dist-max'', PFloat (1 / 2 :: rat)), (''sort'', PStr ''date'')]"
proof -
  have sent: "HttpGet ''https://ssd-api.jpl.nasa.gov/cad.api''
     [(''limit'', PInt 10), (''dist-max'', PFloat (1 / 2)), (''sort'', PStr ''date'')]
     \<in> set (snd (fetch_close_approaches (example_env (RequestFailed ''timed out'')) 10
                    ''0.5'' ''  '' '''' '''' '''' '''' ''''))"
    by code_simp
  from transmitted_params_present
         [where env = "example_env (RequestFailed ''timed out'')" and limit = 10
            and dist_max = "''0.5''" and date_min' = "''  ''" and date_max = "''''"
            and h_min = "''''" and h_max = "''''" and v_inf_min = "''''" and v_inf_max = "''''"]
  have "\<forall>u q. HttpGet u q
          \<in> set (snd (fetch_close_approaches (example_env (RequestFailed ''timed out'')) 10
                         ''0.5'' ''  '' '''' '''' '''' '''' '''')) \<longrightarrow>
          (\<forall>p \<in> set q. snd p \<noteq> PNone \<and> snd p \<noteq> PStr '''')"
    by blast
  with sent have "\<forall>p \<in> set [(''limit'', PInt 10), (''dist-max'', PFloat (1 / 2 :: rat)),
                              (''sort'', PStr ''date'')].
                    snd p \<noteq> PNone \<and> snd p \<noteq> PStr ''''"
    by blast
  with sent show ?thesis by (simp add: list_all_iff)
qed

text \<open>
  Claim C4 (a number that cannot be read). As written, the claim has the message name
  the offending field for both kinds of input; the message of
  \<open>fetch_close_approaches\<close> is built from the text of the ValueError alone (line 230)
  and names no field. What holds: when the energy text is not blank and \<^verbatim>\<open>float\<close> rejects
  it, \<open>fetch_fireballs\<close> returns the message "Error: Invalid energy value '...'. Please
  enter a valid number." with the text between the quotes, and sends nothing; when one
  of the five numeric texts of \<open>fetch_close_approaches\<close> is not blank and rejected, it
  returns "Error: Invalid numeric input - " followed by the ValueError text of such a
  field, and sends nothing.
\<close>

theorem invalid_number_reported:
  "(energy_min \<noteq> '''' \<and> py_float env energy_min = Inl ve \<longrightarrow>
      fetch_fireballs env limit date_min energy_min
        = ((Message (''Error: Invalid energy value '' @ [CHR 0x27] @ energy_min @ [CHR 0x27]
                     @ ''. Please enter a valid number.''), None), []))
   \<and> ((\<exists>s \<in> set [dist_max, h_min, h_max, v_inf_min, v_inf_max].
          s \<noteq> '''' \<and> (\<exists>m. py_float env s = Inl m)) \<longrightarrow>
       (\<exists>s \<in> set [dist_max, h_min, h_max, v_inf_min, v_inf_max].
          s \<noteq> '''' \<and> (\<exists>m. py_float env s = Inl m
            \<and> fetch_close_approaches env limit dist_max date_min date_max h_min h_max
                 v_inf_min v_inf_max
                = ((Message (''Error: Invalid numeric input - '' @ m), None), []))))"
proof (intro conjI impI)
  assume "energy_min \<noteq> '''' \<and> py_float env energy_min = Inl ve"
  then have "float_optional env energy_min = Inl ve" by (simp add: float_optional_Inl)
  then show "fetch_fireballs env limit date_min energy_min
        = ((Message (''Error: Invalid energy value '' @ [CHR 0x27] @ energy_min @ [CHR 0x27]
                     @ ''. Please enter a valid number.''), None), [])"
    by (rule fetch_fireballs_unparsed)
next
  assume "\<exists>s \<in> set [dist_max, h_min, h_max, v_inf_min, v_inf_max].
            s \<noteq> '''' \<and> (\<exists>m. py_float env s = Inl m)"
  then obtain s m where s: "s \<in> set [dist_max, h_min, h_max, v_inf_min, v_inf_max]"
      and ne: "s \<noteq> ''''" and m: "py_float env s = Inl m"
      and failed: "float_inputs env dist_max h_min h_max v_inf_min v_inf_max = Inl m"
    using float_inputs_first_failure [of dist_max h_min h_max v_inf_min v_inf_max env] by blast
  from failed have "fetch_close_approaches env limit dist_max date_min date_max h_min h_max
                      v_inf_min v_inf_max
                    = ((Message (''Error: Invalid numeric input - '' @ m), None), [])"
    by (rule fetch_close_approaches_unparsed)
  with s ne m show "\<exists>s \<in> set [dist_max, h_min, h_max, v_inf_min, v_inf_max].
          s \<noteq> '''' \<and> (\<exists>m. py_float env s = Inl m
            \<and> fetch_close_approaches env limit dist_max date_min date_max h_min h_max
                 v_inf_min v_inf_max
                = ((Message (''Error: Invalid numeric input - '' @ m), None), []))"
    by blast
qed

theorem invalid_number_reported_witness:
  "py_float (example_env (RequestFailed ''unused'')) ''abc''
     = Inl (''could not convert string to float: '' @ [CHR 0x27] @ ''abc'' @ [CHR 0x27])
   \<and> fetch_fireballs (example_env (RequestFailed ''unused'')) 10 ''2023-01-01'' ''abc''
       = ((Message (''Error: Invalid energy value '' @ [CHR 0x27] @ ''abc'' @ [CHR 0x27]
                    @ ''. Please enter a valid number.''), None), [])
   \<and> fetch_close_approaches (example_env (RequestFailed ''unused'')) 10
        ''0.5'' '''' '''' '''' ''abc'' '''' ''''
       = ((Message (''Error: Invalid numeric input - could not convert string to float: ''
                    @ [CHR 0x27] @ ''abc'' @ [CHR 0x27]), None), [])"
  using invalid_number_reported
    [where env = "example_env (RequestFailed ''unused'')" and limit = 10
       and date_min = "''2023-01-01''" and energy_min = "''abc''"
       and ve = "''could not convert string to float: '' @ [CHR 0x27] @ ''abc'' @ [CHR 0x27]"]
    invalid_number_reported
    [where env = "example_env (RequestFailed ''unused'')" and limit = 10
       and dist_max = "''0.5''" and date_min = "''''" and date_max = "''''" and h_min = "''''"
       and h_max = "''abc''" and v_inf_min = "''''" and v_inf_max = "''''"]
  by (simp add: example_env_def example_float_def)

text \<open>
  The same unreadable text typed into the maximum distance or into the minimum
  magnitude gives the same answer: the message does not tell which field it was.
\<close>

theorem close_approach_message_names_no_field_counterexample:
  "fetch_close_approaches (example_env (RequestFailed ''unused'')) 10
     ''abc'' '''' '''' '''' '''' '''' ''''
     = ((Message (''Error: Invalid numeric input - could not convert string to float: ''
                  @ [CHR 0x27] @ ''abc'' @ [CHR 0x27]), None), [])
   \<and> fetch_close_approaches (example_env (RequestFailed ''unused'')) 10
       '''' '''' '''' ''abc'' '''' '''' ''''
     = ((Message (''Error: Invalid numeric input - could not convert string to float: ''
                  @ [CHR 0x27] @ ''abc'' @ [CHR 0x27]), None), [])"
  by (simp add: fetch_close_approaches_def float_inputs_def float_optional_def
                example_env_def example_float_def)

text \<open>
  Claim C5 (an \<^verbatim>\<open>error\<close> key is a failure). When the response is a JSON dict with an
  \<^verbatim>\<open>error\<close> key, whatever its other keys and its status, \<open>make_api_request\<close> returns
  \<^verbatim>\<open>None\<close> (and, the status not being an HTTP error, logs the API error), and both
  interface functions, their numeric inputs being readable so that the request is made,
  return the "No data returned" message with no table and no chart.
\<close>

theorem error_payload_is_no_data:
  assumes "map_of kv ''error'' = Some e"
      and "\<And>url params. http_get env url params = Response status_code content (Some (JObj kv))"
  shows "fst (make_api_request env self url params name) = JNull
       \<and> (\<not> (400 \<le> status_code \<and> status_code < 600) \<longrightarrow>
            ErrorApi name e \<in> set (snd (make_api_request env self url params name)))
       \<and> (float_optional env energy_min = Inr x \<longrightarrow>
            fst (fetch_fireballs env limit date_min energy_min)
              = (Message no_data_returned, None))
       \<and> (float_inputs env dist_max h_min h_max v_inf_min v_inf_max = Inr y \<longrightarrow>
            fst (fetch_close_approaches env limit dist_max date_min date_max h_min h_max
                   v_inf_min v_inf_max)
              = (Message no_data_returned, None))"
proof -
  have none: "fst (make_api_request env self' url' ps name') = JNull"
    for self' url' name' and ps :: "'a params"
    using assms(2) assms(1) by (rule make_api_request_error_key)
  have logged: "ErrorApi name e \<in> set (snd (make_api_request env self url params name))"
    if "\<not> (400 \<le> status_code \<and> status_code < 600)"
  proof -
    have "http_get env url (clean_params params)
            = Response status_code content (Some (JObj kv))"
      by (rule assms(2))
    from make_api_request_api_error [OF this that assms(1), of self name]
    show ?thesis by simp
  qed
  have fire: "fst (fetch_fireballs env limit date_min energy_min)
                = (Message no_data_returned, None)"
    if parsed: "float_optional env energy_min = Inr x"
  proof -
    from get_fireballs_trace [of env init_api limit "strip_optional date_min" x]
    obtain ps where "get_fireballs env init_api limit (strip_optional date_min) x
       = make_api_request env init_api (fireball_url init_api) ps ''Fireball API''" ..
    then have "\<not> py_truthy (fst (get_fireballs env init_api limit (strip_optional date_min) x))"
      by (simp add: none)
    with parsed show ?thesis by (rule fetch_fireballs_no_data)
  qed
  have close: "fst (fetch_close_approaches env limit dist_max date_min date_max h_min h_max
                      v_inf_min v_inf_max)
                 = (Message no_data_returned, None)"
    if parsed: "float_inputs env dist_max h_min h_max v_inf_min v_inf_max = Inr y"
  proof -
    obtain a b c d e' where y: "y = (a, b, c, d, e')" by (cases y)
    from get_close_approaches_trace [of env init_api a "strip_optional date_min"
           "strip_optional date_max" b c d e' limit]
    obtain ps where "get_close_approaches env init_api a (strip_optional date_min)
           (strip_optional date_max) b c d e' limit
       = make_api_request env init_api (ca_url init_api) ps ''Close Approaches API''" ..
    then have "\<not> py_truthy (fst (get_close_approaches env init_api a (strip_optional date_min)
                                    (strip_optional date_max) b c d e' limit))"
      by (simp add: none)
    with parsed y show ?thesis by (intro fetch_close_approaches_no_data) simp_all
  qed
  from none logged fire close show ?thesis by blast
qed

theorem error_payload_is_no_data_witness:
  "map_of [(''error'', JStr ''no records found''), (''fields'', JArr [JStr ''date'']),
           (''data'', JArr [JArr [JStr ''2023-01-01'']])] ''error''
     = Some (JStr ''no records found'')
   \<and> float_optional
        (example_env (Response 200 ''{}''
           (Some (JObj [(''error'', JStr ''no records found''), (''fields'', JArr [JStr ''date'']),
                        (''data'', JArr [JArr [JStr ''2023-01-01'']])]))))
        ''0.5'' = Inr (Some (1 / 2))
   \<and> fst (fetch_fireballs
            (example_env (Response 200 ''{}''
               (Some (JObj [(''error'', JStr ''no records found''),
                            (''fields'', JArr [JStr ''date'']),
                            (''data'', JArr [JArr [JStr ''2023-01-01'']])]))))
            10 ''2023-01-01'' ''0.5'')
       = (Message
            ''No data returned from API. There might be an issue with the connection or parameters.'',
          None)"
  using error_payload_is_no_data
    [where kv = "[(''error'', JStr ''no records found''), (''fields'', JArr [JStr ''date'']),
                  (''data'', JArr [JArr [JStr ''2023-01-01'']])]"
       and e = "JStr ''no records found''"
       and env = "example_env (Response 200 ''{}''
                    (Some (JObj [(''error'', JStr ''no records found''),
                                 (''fields'', JArr [JStr ''date'']),
                                 (''data'', JArr [JArr [JStr ''2023-01-01'']])])))"
       and status_code = 200 and content = "''{}''"
       and energy_min = "''0.5''" and x = "Some (1 / 2)" and limit = 10
       and date_min = "''2023-01-01''"]
  by (simp add: example_env_def example_float_def float_optional_def no_data_returned_def)

text \<open>
  Claim C6 (no column source, or no rows). For every payload that has neither a
  \<^verbatim>\<open>fields\<close> nor a \<^verbatim>\<open>signature\<close> key, or whose \<^verbatim>\<open>data\<close> is missing or empty (falsy),
  \<open>format_response\<close> returns \<^verbatim>\<open>None\<close>; it never raises, and for a dict payload not even
  the body of its \<^verbatim>\<open>try\<close> block does. A payload that is no dict has none of the keys.
\<close>

theorem format_response_absent:
  assumes "\<forall>kv. data = JObj kv \<longrightarrow>
             (map_of kv ''fields'' = None \<and> map_of kv ''signature'' = None)
             \<or> map_of kv ''data'' = None
             \<or> (\<exists>r. map_of kv ''data'' = Some r \<and> \<not> py_truthy r)"
  shows "format_response data format_type = None
         \<and> ((\<exists>kv. data = JObj kv) \<longrightarrow> format_response_try data format_type = Inr None)"
proof (cases data)
  case (JObj kv)
  with assms have "(map_of kv ''fields'' = None \<and> map_of kv ''signature'' = None)
             \<or> map_of kv ''data'' = None
             \<or> (\<exists>r. map_of kv ''data'' = Some r \<and> \<not> py_truthy r)" by simp
  then have "format_response_try (JObj kv) format_type = Inr None"
    by (auto simp: format_response_try_def py_get_dict split: option.splits)
  with JObj show ?thesis by (simp add: format_response_def)
qed (simp_all add: format_response_def format_response_try_def py_get_def)

theorem format_response_absent_witness:
  "map_of [(''data'', JArr [JArr [JNum 1]])] ''fields'' = None
   \<and> map_of [(''data'', JArr [JArr [JNum 1]])] ''signature'' = None
   \<and> format_response (JObj [(''data'', JArr [JArr [JNum 1]])]) ''fireballs'' = None
   \<and> format_response_try (JObj [(''data'', JArr [JArr [JNum 1]])]) ''fireballs'' = Inr None"
  using format_response_absent [of "JObj [(''data'', JArr [JArr [JNum 1]])]" "''fireballs''"]
  by simp

text \<open>
  Claim C7 (the rename step is idempotent). Renaming twice equals renaming once; a
  table none of whose columns is a source key of the rename table is left as it is;
  and no display name is a source key, so that an already renamed table is such a
  table.
\<close>

theorem rename_step_idempotent:
  "rename_step t (rename_step t df) = rename_step t df
   \<and> ((\<forall>c \<in> set (columns df). c \<notin> JStr ` fst ` set (rename_map_of t)) \<longrightarrow> rename_step t df = df)
   \<and> snd ` set (rename_map_of t) \<inter> fst ` set (rename_map_of t) = {}"
proof (intro conjI impI)
  show "rename_step t (rename_step t df) = rename_step t df"
    by (simp add: rename_step_eq df_rename_def rename_label_idem [OF rename_maps_disjoint])
next
  assume "\<forall>c \<in> set (columns df). c \<notin> JStr ` fst ` set (rename_map_of t)"
  then have "map (rename_label (rename_map_of t)) (columns df) = columns df"
    by (simp add: rename_label_fixed map_idI)
  then show "rename_step t df = df"
    by (simp add: rename_step_eq df_rename_def)
next
  show "snd ` set (rename_map_of t) \<inter> fst ` set (rename_map_of t) = {}"
    by (rule rename_maps_disjoint)
qed

theorem rename_step_idempotent_witness:
  "JStr ''Date/Time'' \<notin> JStr ` fst ` set (rename_map_of ''fireballs'')
   \<and> JStr ''Latitude'' \<notin> JStr ` fst ` set (rename_map_of ''fireballs'')
   \<and> JStr ''peak'' \<notin> JStr ` fst ` set (rename_map_of ''fireballs'')
   \<and> rename_step ''fireballs''
        \<lparr>columns = [JStr ''Date/Time'', JStr ''Latitude'', JStr ''peak''],
         rows = [[None, None, None]]\<rparr>
      = \<lparr>columns = [JStr ''Date/Time'', JStr ''Latitude'', JStr ''peak''],
         rows = [[None, None, None]]\<rparr>"
  using rename_step_idempotent
    [of "''fireballs''" "\<lparr>columns = [JStr ''Date/Time'', JStr ''Latitude'', JStr ''peak''],
                           rows = [[None, None, None]]\<rparr>"]
  by (simp add: rename_map_of_def fireball_rename_map_def)

text \<open>
  Claim C8 (a fireball table without coordinates). For a table that lacks the
  \<^verbatim>\<open>Longitude\<close> column or the \<^verbatim>\<open>Latitude\<close> column, the chart step makes no figure
  and hands the table back as it is; and when \<open>format_response\<close> gave that table,
  \<open>fetch_fireballs\<close> returns it, unchanged, with no figure.
\<close>

theorem fireball_table_without_coordinates:
  assumes "JStr ''Longitude'' \<notin> set (columns df) \<or> JStr ''Latitude'' \<notin> set (columns df)"
  shows "fireball_chart env df = (Table df, None)
       \<and> (float_optional env energy_min = Inr e
            \<and> get_fireballs env init_api limit (strip_optional date_min) e = (data, trace)
            \<and> py_truthy data
            \<and> format_response data ''fireballs'' = Some df \<longrightarrow>
          fetch_fireballs env limit date_min energy_min = ((Table df, None), trace))"
proof -
  from assms have chart: "fireball_chart env df = (Table df, None)"
    by (auto simp: fireball_chart_def)
  then show ?thesis by (simp add: fetch_fireballs_table)
qed

theorem fireball_table_without_coordinates_witness:
  "JStr ''Longitude''
     \<notin> set (columns \<lparr>columns = [JStr ''Date/Time'', JStr ''Energy (kt)'', JStr ''Latitude''],
                      rows = [[Some (JStr ''2023-01-01T00:00:00''), Some (JNum (1 / 2)),
                               Some (JNum 10)]]\<rparr>)
   \<and> fst (fetch_fireballs
            (example_env (Response 200 ''{}''
               (Some (JObj [(''fields'', JArr [JStr ''date'', JStr ''energy'', JStr ''lat'']),
                            (''data'', JArr [JArr [JStr ''2023-01-01T00:00:00'', JNum (1 / 2),
                                                   JNum 10]])]))))
            10 '''' '''')
       = (Table \<lparr>columns = [JStr ''Date/Time'', JStr ''Energy (kt)'', JStr ''Latitude''],
                  rows = [[Some (JStr ''2023-01-01T00:00:00''), Some (JNum (1 / 2)),
                           Some (JNum 10)]]\<rparr>,
          None)"
proof -
  let ?data = "JObj [(''fields'', JArr [JStr ''date'', JStr ''energy'', JStr ''lat'']),
                     (''data'', JArr [JArr [JStr ''2023-01-01T00:00:00'', JNum (1 / 2),
                                            JNum 10]])]"
  let ?env = "example_env (Response 200 ''{}'' (Some ?data))"
  let ?df = "\<lparr>columns = [JStr ''Date/Time'', JStr ''Energy (kt)'', JStr ''Latitude''],
              rows = [[Some (JStr ''2023-01-01T00:00:00''), Some (JNum (1 / 2)),
                       Some (JNum 10)]]\<rparr>"
  have lacks: "JStr ''Longitude'' \<notin> set (columns ?df) \<or> JStr ''Latitude'' \<notin> set (columns ?df)"
    by simp
  have parsed: "float_optional ?env '''' = Inr None"
    by (simp add: float_optional_def)
  have got: "fst (get_fireballs ?env init_api 10 (strip_optional '''') None) = ?data"
    by (simp add: get_fireballs_def make_api_request_def example_env_def strip_optional_def
                  Let_def init_api_def)
  have table: "format_response ?data ''fireballs'' = Some ?df"
    by code_simp
  obtain trace where "get_fireballs ?env init_api 10 (strip_optional '''') None = (?data, trace)"
    using got by (cases "get_fireballs ?env init_api 10 (strip_optional '''') None") simp
  with fireball_table_without_coordinates [OF lacks, of ?env "''''" None 10 "''''" ?data trace]
       parsed table
  have "fetch_fireballs ?env 10 '''' '''' = ((Table ?df, None), trace)" by simp
  then show ?thesis by simp
qed

text \<open>
  Claim C9 (axes of the close-approach chart). For a table with at least one column
  that has the \<^verbatim>\<open>Velocity (km/s)\<close> column or a second column, the scatter plot is asked
  for with \<^verbatim>\<open>Nominal Distance (au)\<close> as x if that column is present and the first column
  otherwise, \<^verbatim>\<open>Velocity (km/s)\<close> as y if present and the second column otherwise, and
  \<^verbatim>\<open>H (mag)\<close>, when present, as both marker size and marker colour. A table with one
  column and no velocity has no second column, and no chart is made. The table is the
  one \<open>format_response\<close> gave to \<open>fetch_close_approaches\<close>.
\<close>

theorem close_approach_axes:
  "(columns df \<noteq> []
      \<and> (JStr ''Velocity (km/s)'' \<in> set (columns df) \<or> 2 \<le> length (columns df)) \<longrightarrow>
    (\<exists>args. scatter_args df = Inr args
       \<and> xy_x args = (if JStr ''Nominal Distance (au)'' \<in> set (columns df)
                      then JStr ''Nominal Distance (au)'' else columns df ! 0)
       \<and> xy_y args = (if JStr ''Velocity (km/s)'' \<in> set (columns df)
                      then JStr ''Velocity (km/s)'' else columns df ! 1)
       \<and> xy_size args = (if JStr ''H (mag)'' \<in> set (columns df)
                         then Some (JStr ''H (mag)'') else None)
       \<and> xy_color args = (if JStr ''H (mag)'' \<in> set (columns df)
                          then Some (JStr ''H (mag)'') else None)
       \<and> close_approach_chart env df = (Table df, scatter env df args)))
   \<and> (length (columns df) = 1 \<and> JStr ''Velocity (km/s)'' \<notin> set (columns df) \<longrightarrow>
        close_approach_chart env df = (Table df, None))
   \<and> (float_inputs env dist_max h_min h_max v_inf_min v_inf_max = Inr (a, b, c, d, e)
        \<and> get_close_approaches env init_api a (strip_optional date_min)
             (strip_optional date_max) b c d e limit = (data, trace)
        \<and> py_truthy data
        \<and> format_response data ''close_approaches'' = Some df \<longrightarrow>
      fetch_close_approaches env limit dist_max date_min date_max h_min h_max
        v_inf_min v_inf_max = (close_approach_chart env df, trace))"
proof (intro conjI impI)
  assume cols: "columns df \<noteq> []
      \<and> (JStr ''Velocity (km/s)'' \<in> set (columns df) \<or> 2 \<le> length (columns df))"
  define args where "args =
     \<lparr>xy_x = (if JStr ''Nominal Distance (au)'' \<in> set (columns df)
              then JStr ''Nominal Distance (au)'' else columns df ! 0),
      xy_y = (if JStr ''Velocity (km/s)'' \<in> set (columns df)
              then JStr ''Velocity (km/s)'' else columns df ! 1),
      xy_hover_name = (if JStr ''Object'' \<in> set (columns df) then Some (JStr ''Object'') else None),
      xy_size = (if JStr ''H (mag)'' \<in> set (columns df) then Some (JStr ''H (mag)'') else None),
      xy_color = (if JStr ''H (mag)'' \<in> set (columns df) then Some (JStr ''H (mag)'') else None),
      xy_title = ''Close Approaches - Distance vs Velocity''\<rparr>"
  from cols have first: "py_index (columns df) 0 = Inr (columns df ! 0)"
    by (simp add: py_index_def)
  from cols have second: "JStr ''Velocity (km/s)'' \<notin> set (columns df) \<Longrightarrow>
                            py_index (columns df) 1 = Inr (columns df ! 1)"
    by (auto simp: py_index_def)
  have made: "scatter_args df = Inr args"
    using first second by (simp add: scatter_args_def args_def)
  then have "close_approach_chart env df = (Table df, scatter env df args)"
    by (cases "scatter env df args") (simp_all add: close_approach_chart_def)
  with made show "\<exists>args. scatter_args df = Inr args
       \<and> xy_x args = (if JStr ''Nominal Distance (au)'' \<in> set (columns df)
                      then JStr ''Nominal Distance (au)'' else columns df ! 0)
       \<and> xy_y args = (if JStr ''Velocity (km/s)'' \<in> set (columns df)
                      then JStr ''Velocity (km/s)'' else columns df ! 1)
       \<and> xy_size args = (if JStr ''H (mag)'' \<in> set (columns df)
                         then Some (JStr ''H (mag)'') else None)
       \<and> xy_color args = (if JStr ''H (mag)'' \<in> set (columns df)
                          then Some (JStr ''H (mag)'') else None)
       \<and> close_approach_chart env df = (Table df, scatter env df args)"
    by (intro exI [of _ args]) (simp add: args_def)
next
  assume "length (columns df) = 1 \<and> JStr ''Velocity (km/s)'' \<notin> set (columns df)"
  then have "scatter_args df = Inl IndexError"
    by (simp add: scatter_args_def py_index_def)
  then show "close_approach_chart env df = (Table df, None)"
    by (simp add: close_approach_chart_def)
next
  assume "float_inputs env dist_max h_min h_max v_inf_min v_inf_max = Inr (a, b, c, d, e)
        \<and> get_close_approaches env init_api a (strip_optional date_min)
             (strip_optional date_max) b c d e limit = (data, trace)
        \<and> py_truthy data
        \<and> format_response data ''close_approaches'' = Some df"
  then have "float_inputs env dist_max h_min h_max v_inf_min v_inf_max = Inr (a, b, c, d, e)"
    and "get_close_approaches env init_api a (strip_optional date_min)
           (strip_optional date_max) b c d e limit = (data, trace)"
    and "py_truthy data"
    and "format_response data ''close_approaches'' = Some df"
    by simp_all
  then show "fetch_close_approaches env limit dist_max date_min date_max h_min h_max
        v_inf_min v_inf_max = (close_approach_chart env df, trace)"
    by (rule fetch_close_approaches_table)
qed

text \<open>
  A payload with the columns \<^verbatim>\<open>des\<close>, \<^verbatim>\<open>cd\<close> and \<^verbatim>\<open>h\<close>, and neither \<^verbatim>\<open>dist\<close> nor \<^verbatim>\<open>v_rel\<close>: the
  chart falls back to the first two columns, with \<^verbatim>\<open>H (mag)\<close> as size and colour.
\<close>

theorem close_approach_axes_witness:
  "columns \<lparr>columns = [JStr ''Object'', JStr ''Time (TDB)'', JStr ''H (mag)''],
            rows = [[Some (JStr ''433''), Some (JStr ''2023-Jan-01 00:00''), Some (JNum 10)]]\<rparr>
     \<noteq> []
   \<and> fst (fetch_close_approaches
            (example_env (Response 200 ''{}''
               (Some (JObj [(''fields'', JArr [JStr ''des'', JStr ''cd'', JStr ''h'']),
                            (''data'', JArr [JArr [JStr ''433'', JStr ''2023-Jan-01 00:00'',
                                                   JNum 10]])]))))
            10 '''' '''' '''' '''' '''' '''' '''')
       = close_approach_chart
           (example_env (Response 200 ''{}''
              (Some (JObj [(''fields'', JArr [JStr ''des'', JStr ''cd'', JStr ''h'']),
                           (''data'', JArr [JArr [JStr ''433'', JStr ''2023-Jan-01 00:00'',
                                                  JNum 10]])]))))
           \<lparr>columns = [JStr ''Object'', JStr ''Time (TDB)'', JStr ''H (mag)''],
            rows = [[Some (JStr ''433''), Some (JStr ''2023-Jan-01 00:00''), Some (JNum 10)]]\<rparr>
   \<and> (\<exists>args.
         scatter_args \<lparr>columns = [JStr ''Object'', JStr ''Time (TDB)'', JStr ''H (mag)''],
                       rows = [[Some (JStr ''433''), Some (JStr ''2023-Jan-01 00:00''),
                                Some (JNum 10)]]\<rparr> = Inr args
         \<and> xy_x args = JStr ''Object''
         \<and> xy_y args = JStr ''Time (TDB)''
         \<and> xy_size args = Some (JStr ''H (mag)'')
         \<and> xy_color args = Some (JStr ''H (mag)'')
         \<and> close_approach_chart
              (example_env (Response 200 ''{}''
                 (Some (JObj [(''fields'', JArr [JStr ''des'', JStr ''cd'', JStr ''h'']),
                              (''data'', JArr [JArr [JStr ''433'', JStr ''2023-Jan-01 00:00'',
                                                     JNum 10]])]))))
              \<lparr>columns = [JStr ''Object'', JStr ''Time (TDB)'', JStr ''H (mag)''],
               rows = [[Some (JStr ''433''), Some (JStr ''2023-Jan-01 00:00''),
                        Some (JNum 10)]]\<rparr>
             = (Table \<lparr>columns = [JStr ''Object'', JStr ''Time (TDB)'', JStr ''H (mag)''],
                        rows = [[Some (JStr ''433''), Some (JStr ''2023-Jan-01 00:00''),
                                 Some (JNum 10)]]\<rparr>,
                Some (Inr args)))"
proof -
  let ?data = "JObj [(''fields'', JArr [JStr ''des'', JStr ''cd'', JStr ''h'']),
                     (''data'', JArr [JArr [JStr ''433'', JStr ''2023-Jan-01 00:00'', JNum 10]])]"
  let ?env = "example_env (Response 200 ''{}'' (Some ?data))"
  let ?df = "\<lparr>columns = [JStr ''Object'', JStr ''Time (TDB)'', JStr ''H (mag)''],
              rows = [[Some (JStr ''433''), Some (JStr ''2023-Jan-01 00:00''),
                       Some (JNum 10)]]\<rparr>"
  have parsed: "float_inputs ?env '''' '''' '''' '''' '''' = Inr (None, None, None, None, None)"
    by (simp add: float_inputs_def float_optional_def)
  have got: "fst (get_close_approaches ?env init_api None (strip_optional '''')
                    (strip_optional '''') None None None None 10) = ?data"
    by (simp add: get_close_approaches_def make_api_request_def example_env_def
                  strip_optional_def Let_def init_api_def)
  have table: "format_response ?data ''close_approaches'' = Some ?df"
    by code_simp
  obtain trace where "get_close_approaches ?env init_api None (strip_optional '''')
                        (strip_optional '''') None None None None 10 = (?data, trace)"
    using got
    by (cases "get_close_approaches ?env init_api None (strip_optional '''')
                 (strip_optional '''') None None None None 10") simp
  with close_approach_axes
         [where df = ?df and env = ?env and dist_max = "''''" and h_min = "''''"
            and h_max = "''''" and v_inf_min = "''''" and v_inf_max = "''''"
            and a = None and b = None and c = None and d = None and e = None
            and date_min = "''''" and date_max = "''''" and limit = 10
            and data = ?data and trace = trace]
       parsed table
  have fetched: "fetch_close_approaches ?env 10 '''' '''' '''' '''' '''' '''' ''''
                   = (close_approach_chart ?env ?df, trace)"
    by simp
  have "columns ?df \<noteq> []
          \<and> (JStr ''Velocity (km/s)'' \<in> set (columns ?df) \<or> 2 \<le> length (columns ?df))"
    by simp
  with close_approach_axes [where df = ?df and env = ?env]
  have "\<exists>args. scatter_args ?df = Inr args
       \<and> xy_x args = (if JStr ''Nominal Distance (au)'' \<in> set (columns ?df)
                      then JStr ''Nominal Distance (au)'' else columns ?df ! 0)
       \<and> xy_y args = (if JStr ''Velocity (km/s)'' \<in> set (columns ?df)
                      then JStr ''Velocity (km/s)'' else columns ?df ! 1)
       \<and> xy_size args = (if JStr ''H (mag)'' \<in> set (columns ?df)
                         then Some (JStr ''H (mag)'') else None)
       \<and> xy_color args = (if JStr ''H (mag)'' \<in> set (columns ?df)
                          then Some (JStr ''H (mag)'') else None)
       \<and> close_approach_chart ?env ?df = (Table ?df, scatter ?env ?df args)"
    by blast
  then obtain args where "scatter_args ?df = Inr args"
      and "xy_x args = JStr ''Object''" and "xy_y args = JStr ''Time (TDB)''"
      and "xy_size args = Some (JStr ''H (mag)'')" and "xy_color args = Some (JStr ''H (mag)'')"
      and chart: "close_approach_chart ?env ?df = (Table ?df, scatter ?env ?df args)"
    by auto
  moreover have "scatter ?env ?df args = Some (Inr args)"
    by (simp add: example_env_def)
  moreover note fetched
  ultimately show ?thesis by simp
qed

text \<open>
  Claim C10 (rows longer or shorter than the field list). For a dict payload whose
  column source is a non-empty list of names and whose \<^verbatim>\<open>data\<close> is a non-empty list of
  rows of any lengths: the body of \<open>format_response\<close> raises nothing; a row gives the
  same record as the row cut to the length of the field list; and, the names being
  distinct, the table has the first \<open>n\<close> fields as columns, \<open>n\<close> being the length of the
  longest row or of the field list if that is smaller, and the cell of row \<open>r\<close> in
  column \<open>j\<close> is \<open>r ! j\<close> if the row reaches it and absent otherwise (no table, but no
  exception, when every row is empty).
\<close>

theorem format_response_row_lengths:
  assumes "map_of kv ''fields'' = Some (JArr (map JStr names))
           \<or> (map_of kv ''fields'' = None \<and> map_of kv ''signature'' = Some (JArr (map JStr names)))"
      and "map_of kv ''data'' = Some (JArr (map JArr rs))"
      and "names \<noteq> []" and "rs \<noteq> []"
  shows "(\<exists>res. format_response_try (JObj kv) t = Inr res)
       \<and> (\<forall>r \<in> set rs. py_zip (JArr (map JStr names)) (JArr r)
                          = py_zip (JArr (map JStr names)) (JArr (take (length names) r)))
       \<and> (distinct names \<longrightarrow>
            (let n = min (length names) (Max (length ` set rs)) in
               if n = 0 then format_response (JObj kv) t = None
               else \<exists>df. format_response (JObj kv) t = Some df
                      \<and> columns df = map (rename_label (rename_map_of t)) (map JStr (take n names))
                      \<and> rows df = map (\<lambda>r. map (\<lambda>j. if j < length r then Some (r ! j) else None)
                                             [0..<n]) rs))"
proof (intro conjI impI ballI)
  show "\<exists>res. format_response_try (JObj kv) t = Inr res"
    using format_response_try_lists [OF assms, of t] by (simp add: Let_def)
next
  fix r :: "json list" assume "r \<in> set rs"
  have "zip (map JStr names) r = zip (map JStr names) (take (length names) r)"
    using zip_take_right [of "map JStr names" r] by simp
  then show "py_zip (JArr (map JStr names)) (JArr r)
               = py_zip (JArr (map JStr names)) (JArr (take (length names) r))"
    by (simp add: py_zip_lists)
next
  assume dist: "distinct names"
  define n where "n = min (length names) (Max (length ` set rs))"
  define df where "df = DataFrame (map (\<lambda>r. dict_of_pairs [] (zip (map JStr names) r)) rs)"
  have cols: "columns df = map JStr (take n names)"
    and rws: "rows df = map (\<lambda>r. map (\<lambda>j. if j < length r then Some (r ! j) else None) [0..<n]) rs"
    using frame_distinct [OF dist \<open>rs \<noteq> []\<close>] by (simp_all add: df_def n_def)
  have n_le: "n \<le> length names" by (simp add: n_def)
  have empty: "df_empty df = (n = 0)"
    using \<open>rs \<noteq> []\<close> \<open>names \<noteq> []\<close> n_le by (auto simp: df_empty_def cols rws)
  have res: "format_response (JObj kv) t = (if n = 0 then None else Some (rename_step t df))"
    using format_response_try_lists [OF assms, of t] empty
    by (simp add: format_response_def df_def)
  have "if n = 0 then format_response (JObj kv) t = None
        else \<exists>df. format_response (JObj kv) t = Some df
               \<and> columns df = map (rename_label (rename_map_of t)) (map JStr (take n names))
               \<and> rows df = map (\<lambda>r. map (\<lambda>j. if j < length r then Some (r ! j) else None)
                                      [0..<n]) rs"
    using res by (simp add: rename_step_columns_eq rename_step_rows cols rws)
  then show "let n = min (length names) (Max (length ` set rs)) in
               if n = 0 then format_response (JObj kv) t = None
               else \<exists>df. format_response (JObj kv) t = Some df
                      \<and> columns df = map (rename_label (rename_map_of t)) (map JStr (take n names))
                      \<and> rows df = map (\<lambda>r. map (\<lambda>j. if j < length r then Some (r ! j) else None)
                                             [0..<n]) rs"
    unfolding Let_def n_def .
qed

theorem format_response_row_lengths_witness:
  "map_of [(''fields'', JArr [JStr ''a'', JStr ''b'']),
           (''data'', JArr [JArr [JNum 1], JArr [JNum 1, JNum 2, JNum 3]])] ''data''
     = Some (JArr (map JArr [[JNum 1], [JNum 1, JNum 2, JNum 3]]))
   \<and> distinct [''a'', ''b'']
   \<and> (\<exists>df. format_response
               (JObj [(''fields'', JArr [JStr ''a'', JStr ''b'']),
                      (''data'', JArr [JArr [JNum 1], JArr [JNum 1, JNum 2, JNum 3]])])
               ''fireballs'' = Some df
           \<and> columns df = [JStr ''a'', JStr ''b'']
           \<and> rows df = [[Some (JNum 1), None], [Some (JNum 1), Some (JNum 2)]])"
  using format_response_row_lengths
    [where kv = "[(''fields'', JArr [JStr ''a'', JStr ''b'']),
                  (''data'', JArr [JArr [JNum 1], JArr [JNum 1, JNum 2, JNum 3]])]"
       and names = "[''a'', ''b'']"
       and rs = "[[JNum 1], [JNum 1, JNum 2, JNum 3]]"
       and t = "''fireballs''"]
  by (simp add: rename_label_def rename_map_of_def fireball_rename_map_def upt_rec)


end
